theory Spec2Isabelle
  imports Complex_Main "HOL-Library.Log_Nat"
begin

section \<open>Data model\<close>

text \<open>
  A Python \<open>str\<close> is a sequence of Unicode code points and \<open>len\<close> counts code points,
  so a string is modelled as the list of its code points. \<open>ascii\<close> writes an ASCII
  literal as such a list.

  A Python \<open>float\<close> is an IEEE 754 binary64 value. A finite one is modelled as the real
  number it denotes, and the arithmetic on floats rounds the exact result to the nearest
  binary64 value (\<open>round_double\<close> below). Infinities and NaN are not modelled: the
  constraints of \<open>price_original\<close> exclude both, and an infinite \<open>offer_fixed\<close> takes
  part in no arithmetic (it is discarded or rejected). A Python \<open>int\<close> is an \<open>int\<close>.
\<close>

type_synonym pystr = "nat list"

definition ascii :: "string \<Rightarrow> pystr" where
  "ascii s = map of_char s"

text \<open>
  \<open>datetime.datetime\<close>: the civil fields and \<open>tzinfo\<close>. A naive value has
  \<open>tzinfo = None\<close>; an aware one carries its fixed offset from UTC in microseconds
  (the library's \<open>timezone(timedelta(...))\<close>, with \<open>timezone.utc\<close> the offset 0).
\<close>

record datetime =
  year :: int
  month :: int
  day :: int
  hour :: int
  minute :: int
  second :: int
  microsecond :: int
  tzinfo :: "int option"

text \<open>\<open>schemas.Collaborator\<close>.\<close>

record Collaborator =
  username :: pystr
  role :: pystr
  share_percent :: int

text \<open>\<open>main.DrumkitCreate\<close>, the request body handed to \<open>create_drumkit\<close>.\<close>

record DrumkitCreate =
  archive_url :: "pystr option"
  preview_urls :: "pystr list"
  cover_url :: "pystr option"
  title :: pystr
  release_at :: pystr
  description :: "pystr option"
  visibility :: pystr
  tags :: "pystr list"
  sounds_count :: int
  price_original :: real
  is_free :: bool
  offer_fixed :: "real option"
  offer_percent :: "int option"
  owner_username :: pystr
  collaborators :: "Collaborator list"

text \<open>
  \<open>schemas.Drumkit\<close>, the stored document. Its fields carry the prefix \<open>dk_\<close>, the
  names of the source being taken by the request body.
\<close>

record Drumkit =
  dk_archive_url :: "pystr option"
  dk_preview_urls :: "pystr list"
  dk_cover_url :: "pystr option"
  dk_title :: pystr
  dk_release_at :: datetime
  dk_description :: "pystr option"
  dk_visibility :: pystr
  dk_tags :: "pystr list"
  dk_sounds_count :: int
  dk_price_original :: real
  dk_is_free :: bool
  dk_offer_fixed :: "real option"
  dk_offer_percent :: "int option"
  dk_price_final :: real
  dk_owner_username :: pystr
  dk_collaborators :: "Collaborator list"

text \<open>
  The outcomes of \<open>create_drumkit\<close> other than a response. The first five are the
  \<open>HTTPException\<close>s with status 400 that the function raises, named as the
  specification names them (the source tells them apart by their \<open>detail\<close> text).
  \<open>TypeError\<close> is the exception of comparing a naive with an aware \<open>datetime\<close>, and
  \<open>ValidationError\<close> the one of constructing a \<open>Drumkit\<close> that violates its field
  constraints; the function catches neither.
\<close>

datatype error =
    InvalidTags
  | OfferExceedsPrice
  | OfferPercentTooHigh
  | InvalidReleaseDate
  | ReleaseDateInPast
  | TypeError
  | ValidationError

section \<open>Field constraints of the schemas\<close>

definition opt_all :: "('a \<Rightarrow> bool) \<Rightarrow> 'a option \<Rightarrow> bool" where
  "opt_all P x = (case x of None \<Rightarrow> True | Some v \<Rightarrow> P v)"

definition opt_ex :: "('a \<Rightarrow> bool) \<Rightarrow> 'a option \<Rightarrow> bool" where
  "opt_ex P x = (case x of None \<Rightarrow> False | Some v \<Rightarrow> P v)"

definition visibility_values :: "pystr list" where
  "visibility_values = [ascii ''privado'', ascii ''publico'', ascii ''no_listado'']"

definition role_values :: "pystr list" where
  "role_values = [ascii ''productor'', ascii ''Ingeniero de audio'', ascii ''Artista'']"

definition Collaborator_valid :: "Collaborator \<Rightarrow> bool" where
  "Collaborator_valid c =
     (length (username c) \<le> 32 \<and> role c \<in> set role_values
      \<and> 0 \<le> share_percent c \<and> share_percent c \<le> 100)"

text \<open>
  The \<open>Field\<close> constraints of \<open>DrumkitCreate\<close>: the framework builds the request body
  under them before \<open>create_drumkit\<close> runs, so that every body the function receives
  satisfies \<open>DrumkitCreate_valid\<close>.
\<close>

definition DrumkitCreate_valid :: "DrumkitCreate \<Rightarrow> bool" where
  "DrumkitCreate_valid p =
     (length (title p) \<le> 60
      \<and> opt_all (\<lambda>d. length d \<le> 500) (description p)
      \<and> visibility p \<in> set visibility_values
      \<and> 0 \<le> sounds_count p \<and> sounds_count p \<le> 999
      \<and> 1 \<le> price_original p \<and> price_original p \<le> 1000
      \<and> opt_all (\<lambda>f. 0 \<le> f) (offer_fixed p)
      \<and> opt_all (\<lambda>k. 0 \<le> k \<and> k \<le> 90) (offer_percent p)
      \<and> length (owner_username p) \<le> 32
      \<and> list_all Collaborator_valid (collaborators p))"

text \<open>
  The constraints of \<open>Drumkit\<close>, checked when \<open>create_drumkit\<close> constructs the
  document; \<open>release_at\<close> is an \<open>AwareDatetime\<close>.
\<close>

definition Drumkit_valid :: "Drumkit \<Rightarrow> bool" where
  "Drumkit_valid d =
     (length (dk_title d) \<le> 60
      \<and> tzinfo (dk_release_at d) \<noteq> None
      \<and> opt_all (\<lambda>x. length x \<le> 500) (dk_description d)
      \<and> dk_visibility d \<in> set visibility_values
      \<and> 0 \<le> dk_sounds_count d \<and> dk_sounds_count d \<le> 999
      \<and> 1 \<le> dk_price_original d \<and> dk_price_original d \<le> 1000
      \<and> opt_all (\<lambda>f. 0 \<le> f) (dk_offer_fixed d)
      \<and> opt_all (\<lambda>k. 0 \<le> k \<and> k \<le> 90) (dk_offer_percent d)
      \<and> 0 \<le> dk_price_final d
      \<and> length (dk_owner_username d) \<le> 32
      \<and> list_all Collaborator_valid (dk_collaborators d))"

section \<open>Library operations used by the endpoint\<close>

text \<open>
  \<open>s.replace(old, new)\<close> for a pattern \<open>old\<close> of one character: every occurrence is
  replaced.
\<close>

definition str_replace :: "pystr \<Rightarrow> nat \<Rightarrow> pystr \<Rightarrow> pystr" where
  "str_replace s old new = concat (map (\<lambda>c. if c = old then new else [c]) s)"

text \<open>\<open>dt.replace(second=0, microsecond=0)\<close>.\<close>

definition replace_second_microsecond :: "datetime \<Rightarrow> datetime" where
  "replace_second_microsecond dt = dt\<lparr>second := 0, microsecond := 0\<rparr>"

text \<open>
  \<open>datetime.toordinal\<close>: the day number in the proleptic Gregorian calendar, as the
  library computes it.
\<close>

definition is_leap :: "int \<Rightarrow> bool" where
  "is_leap y = (y mod 4 = 0 \<and> (y mod 100 \<noteq> 0 \<or> y mod 400 = 0))"

definition days_before_year :: "int \<Rightarrow> int" where
  "days_before_year y = (let y1 = y - 1 in y1 * 365 + y1 div 4 - y1 div 100 + y1 div 400)"

definition days_before_month :: "int \<Rightarrow> int \<Rightarrow> int" where
  "days_before_month y m =
     (if 1 \<le> m \<and> m \<le> 12
      then [0, 31, 59, 90, 120, 151, 181, 212, 243, 273, 304, 334] ! nat (m - 1)
           + (if m > 2 \<and> is_leap y then 1 else 0)
      else 0)"

definition toordinal :: "datetime \<Rightarrow> int" where
  "toordinal dt = days_before_year (year dt) + days_before_month (year dt) (month dt) + day dt"

text \<open>
  \<open>a - b\<close> on the civil fields, in microseconds (the library's \<open>timedelta\<close> of days,
  seconds and microseconds), before any offset is taken into account.
\<close>

definition base_delta :: "datetime \<Rightarrow> datetime \<Rightarrow> int" where
  "base_delta a b =
     (toordinal a - toordinal b) * 86400000000
     + ((second a + minute a * 60 + hour a * 3600)
        - (second b + minute b * 60 + hour b * 3600)) * 1000000
     + (microsecond a - microsecond b)"

text \<open>Python's order on tuples of integers.\<close>

fun tuple_lt :: "int list \<Rightarrow> int list \<Rightarrow> bool" where
  "tuple_lt [] [] = False"
| "tuple_lt [] (y # ys) = True"
| "tuple_lt (x # xs) [] = False"
| "tuple_lt (x # xs) (y # ys) = (x < y \<or> (x = y \<and> tuple_lt xs ys))"

definition civil_fields :: "datetime \<Rightarrow> int list" where
  "civil_fields dt =
     [year dt, month dt, day dt, hour dt, minute dt, second dt, microsecond dt]"

text \<open>
  \<open>a < b\<close> on \<open>datetime\<close>: with equal offsets (or both naive) the civil fields are
  compared as tuples; a naive and an aware value raise \<open>TypeError\<close>; two aware values
  of different offsets are compared through the sign of \<open>a - b\<close>, offsets included.
\<close>

definition datetime_lt :: "datetime \<Rightarrow> datetime \<Rightarrow> error + bool" where
  "datetime_lt a b =
     (if tzinfo a = tzinfo b then Inr (tuple_lt (civil_fields a) (civil_fields b))
      else (case (tzinfo a, tzinfo b) of
              (Some myoff, Some otoff) \<Rightarrow> Inr (base_delta a b + otoff - myoff < 0)
            | _ \<Rightarrow> Inl TypeError))"

text \<open>The number of days of a month, as the library has it.\<close>

definition days_in_month :: "int \<Rightarrow> int \<Rightarrow> int" where
  "days_in_month y m =
     (if m = 2 \<and> is_leap y then 29
      else if 1 \<le> m \<and> m \<le> 12
        then [31, 28, 31, 30, 31, 30, 31, 31, 30, 31, 30, 31] ! nat (m - 1)
      else 0)"

text \<open>
  The invariant of a \<open>datetime\<close> object of the library: its civil fields are a date of
  the proleptic Gregorian calendar and a time of day.
\<close>

definition datetime_valid :: "datetime \<Rightarrow> bool" where
  "datetime_valid dt =
     (1 \<le> year dt \<and> year dt \<le> 9999 \<and> 1 \<le> month dt \<and> month dt \<le> 12
      \<and> 1 \<le> day dt \<and> day dt \<le> days_in_month (year dt) (month dt)
      \<and> 0 \<le> hour dt \<and> hour dt < 24 \<and> 0 \<le> minute dt \<and> minute dt < 60
      \<and> 0 \<le> second dt \<and> second dt < 60
      \<and> 0 \<le> microsecond dt \<and> microsecond dt < 1000000)"

text \<open>
  The instant of an aware \<open>datetime\<close> with the offset \<open>off\<close>, in microseconds of UTC since
  the day before day 1, and the minute of UTC it falls in. \<open>time_of_day\<close>, \<open>date_lt\<close> and
  \<open>date_eq\<close> serve the proof that the library's comparison orders instants.
\<close>

definition utc_microseconds :: "datetime \<Rightarrow> int \<Rightarrow> int" where
  "utc_microseconds dt off =
     toordinal dt * 86400000000
     + (second dt + minute dt * 60 + hour dt * 3600) * 1000000
     + microsecond dt - off"

definition utc_minute :: "datetime \<Rightarrow> int \<Rightarrow> int" where
  "utc_minute dt off = utc_microseconds dt off div 60000000"

definition time_of_day :: "datetime \<Rightarrow> int" where
  "time_of_day dt =
     (second dt + minute dt * 60 + hour dt * 3600) * 1000000 + microsecond dt"

definition date_lt :: "datetime \<Rightarrow> datetime \<Rightarrow> bool" where
  "date_lt a b =
     (year a < year b
      \<or> (year a = year b \<and> (month a < month b \<or> (month a = month b \<and> day a < day b))))"

definition date_eq :: "datetime \<Rightarrow> datetime \<Rightarrow> bool" where
  "date_eq a b = (year a = year b \<and> month a = month b \<and> day a = day b)"

section \<open>Binary floating-point arithmetic\<close>

text \<open>
  Rounding to binary64, to nearest with ties to even. \<open>float_exponent x\<close> is the exponent
  \<open>e\<close> of the binade of \<open>x\<close> (\<open>2 ^ e \<le> \<bar>x\<bar> < 2 ^ (e + 1)\<close>), not below the least normal
  exponent \<open>- 1022\<close>; the values of that binade are the multiples of \<open>2 ^ (e - 52)\<close>,
  and \<open>round_double x\<close> is the nearest of them. The overflow to infinity is left out:
  no result of the endpoint's arithmetic on a request body comes near it.
\<close>

definition round_half_even :: "real \<Rightarrow> int" where
  "round_half_even y =
     (let f = \<lfloor>y\<rfloor>; d = y - of_int f
      in if d < 1 / 2 then f else if d > 1 / 2 then f + 1 else if even f then f else f + 1)"

definition float_exponent :: "real \<Rightarrow> int" where
  "float_exponent x =
     (if 1 \<le> \<bar>x\<bar> then bitlen \<lfloor>\<bar>x\<bar>\<rfloor> - 1
      else if x = 0 then - 1022
      else max (- bitlen (\<lceil>1 / \<bar>x\<bar>\<rceil> - 1)) (- 1022))"

definition round_double :: "real \<Rightarrow> real" where
  "round_double x =
     (let q = float_exponent x - 52
      in of_int (round_half_even (x / 2 powi q)) * 2 powi q)"

text \<open>The finite binary64 values, the least positive normal one and the least positive one.\<close>

definition is_double :: "real \<Rightarrow> bool" where
  "is_double x = (round_double x = x \<and> bitlen \<lfloor>\<bar>x\<bar>\<rfloor> \<le> 1024)"

definition min_normal :: real where
  "min_normal = 2 powi (- 1022)"

definition min_subnormal :: real where
  "min_subnormal = 2 powi (- 1074)"

text \<open>
  The operations of \<open>create_drumkit\<close> on floats: \<open>a - b\<close>, \<open>a * b\<close>, and the true division
  \<open>a / b\<close> of two integers, which is correctly rounded.
\<close>

definition float_sub :: "real \<Rightarrow> real \<Rightarrow> real" where
  "float_sub a b = round_double (a - b)"

definition float_mul :: "real \<Rightarrow> real \<Rightarrow> real" where
  "float_mul a b = round_double (a * b)"

definition int_truediv :: "int \<Rightarrow> int \<Rightarrow> real" where
  "int_truediv a b = round_double (real_of_int a / real_of_int b)"

section \<open>The environment of a request\<close>

text \<open>
  A stored call of \<open>create_document\<close>: the collection name and the document.
\<close>

type_synonym storage = "(pystr \<times> Drumkit) list"

text \<open>
  What \<open>create_drumkit\<close> takes from outside the repository's source:
  \<^item> \<open>fromisoformat\<close>, the library's \<open>datetime.fromisoformat\<close>, with \<open>None\<close> for its
    \<open>ValueError\<close>;
  \<^item> \<open>wall_clock\<close>, the civil fields that \<open>datetime.now(timezone.utc)\<close> reads;
  \<^item> \<open>new_id\<close>, the identifier that the storage collaborator generates for a document,
    given what it holds.
\<close>

record env =
  fromisoformat :: "pystr \<Rightarrow> datetime option"
  wall_clock :: datetime
  new_id :: "storage \<Rightarrow> pystr \<Rightarrow> Drumkit \<Rightarrow> pystr"

text \<open>\<open>datetime.now(timezone.utc)\<close>: the clock's reading, aware, with the offset 0.\<close>

definition datetime_now_utc :: "env \<Rightarrow> datetime" where
  "datetime_now_utc e = (wall_clock e)\<lparr>tzinfo := Some 0\<rparr>"

text \<open>
  Modelled from the spec: \<open>database.create_document\<close> is imported by \<open>main.py\<close> and its
  module is not among the source files. The specification gives it as
  \<open>create_document(collection_name, record) -> id\<close>, one insert that returns the
  generated identifier. The storage is the sequence of the inserts made so far.
\<close>

definition create_document ::
  "env \<Rightarrow> pystr \<Rightarrow> Drumkit \<Rightarrow> storage \<Rightarrow> pystr \<times> storage" where
  "create_document e collection_name doc st =
     (new_id e st collection_name doc, st @ [(collection_name, doc)])"

section \<open>The endpoint \<open>create_drumkit\<close>\<close>

text \<open>The tag check: \<open>len(payload.tags) > 3 or any(len(t) > 15 for t in payload.tags)\<close>.\<close>

definition check_tags :: "DrumkitCreate \<Rightarrow> error + unit" where
  "check_tags payload =
     (if length (tags payload) > 3 \<or> list_ex (\<lambda>t. length t > 15) (tags payload)
      then Inl InvalidTags else Inr ())"

text \<open>
  The price before the clamp, as the non-free branch assigns it: the original price,
  overwritten by \<open>price_original - offer_fixed\<close> if there is a fixed discount, else by
  \<open>price_original * (1 - offer_percent/100)\<close> if there is a percent discount, each
  operation in floating-point arithmetic.
\<close>

definition discounted_price :: "DrumkitCreate \<Rightarrow> real" where
  "discounted_price payload =
     (case offer_fixed payload of
        Some f \<Rightarrow> float_sub (price_original payload) f
      | None \<Rightarrow>
          (case offer_percent payload of
             Some k \<Rightarrow> float_mul (price_original payload) (float_sub 1 (int_truediv k 100))
           | None \<Rightarrow> price_original payload))"

text \<open>The float fields of a request body hold finite binary64 values.\<close>

definition float_fields :: "DrumkitCreate \<Rightarrow> bool" where
  "float_fields payload =
     (is_double (price_original payload) \<and> opt_all is_double (offer_fixed payload))"

text \<open>
  The pricing logic: the values of \<open>final_price\<close>, \<open>offer_fixed\<close> and \<open>offer_percent\<close>
  after it, or the rejection it raises.
\<close>

definition pricing :: "DrumkitCreate \<Rightarrow> error + (real \<times> real option \<times> int option)" where
  "pricing payload =
     (if is_free payload then Inr (0, None, None)
      else if opt_ex (\<lambda>f. f \<ge> price_original payload) (offer_fixed payload)
        then Inl OfferExceedsPrice
      else if opt_ex (\<lambda>k. k > 90) (offer_percent payload)
        then Inl OfferPercentTooHigh
      else Inr (max (discounted_price payload) 0, offer_fixed payload, offer_percent payload))"

text \<open>
  The release date validation, whose handler catches \<open>ValueError\<close> only: a
  \<open>ValueError\<close> of the parser becomes \<open>InvalidReleaseDate\<close>, and the \<open>TypeError\<close> of
  the comparison is not caught.
\<close>

definition check_release :: "env \<Rightarrow> DrumkitCreate \<Rightarrow> error + datetime" where
  "check_release e payload =
     (case fromisoformat e (str_replace (release_at payload) (of_char CHR ''Z'') (ascii ''+00:00'')) of
        None \<Rightarrow> Inl InvalidReleaseDate
      | Some client_dt \<Rightarrow>
          (case datetime_lt (replace_second_microsecond client_dt)
                            (replace_second_microsecond (datetime_now_utc e)) of
             Inl err \<Rightarrow> Inl err
           | Inr True \<Rightarrow> Inl ReleaseDateInPast
           | Inr False \<Rightarrow> Inr client_dt))"

text \<open>The document that \<open>create_drumkit\<close> builds from the body and the computed values.\<close>

definition drumkit_doc ::
  "DrumkitCreate \<Rightarrow> datetime \<Rightarrow> real option \<Rightarrow> int option \<Rightarrow> real \<Rightarrow> Drumkit" where
  "drumkit_doc payload client_dt offer_fixed' offer_percent' final_price =
     \<lparr> dk_archive_url = archive_url payload,
       dk_preview_urls = preview_urls payload,
       dk_cover_url = cover_url payload,
       dk_title = title payload,
       dk_release_at = client_dt,
       dk_description = description payload,
       dk_visibility = visibility payload,
       dk_tags = tags payload,
       dk_sounds_count = sounds_count payload,
       dk_price_original = price_original payload,
       dk_is_free = is_free payload,
       dk_offer_fixed = offer_fixed',
       dk_offer_percent = offer_percent',
       dk_price_final = final_price,
       dk_owner_username = owner_username payload,
       dk_collaborators = collaborators payload \<rparr>"

text \<open>
  \<open>create_drumkit\<close>: the outcome (a rejection, or the identifier of the response
  \<open>{"id": new_id}\<close>) and the storage after the call.
\<close>

definition create_drumkit ::
  "env \<Rightarrow> storage \<Rightarrow> DrumkitCreate \<Rightarrow> (error + pystr) \<times> storage" where
  "create_drumkit e st payload =
     (case check_tags payload of
        Inl err \<Rightarrow> (Inl err, st)
      | Inr _ \<Rightarrow>
     (case pricing payload of
        Inl err \<Rightarrow> (Inl err, st)
      | Inr (final_price, offer_fixed', offer_percent') \<Rightarrow>
     (case check_release e payload of
        Inl err \<Rightarrow> (Inl err, st)
      | Inr client_dt \<Rightarrow>
     (let doc = drumkit_doc payload client_dt offer_fixed' offer_percent' final_price
      in if \<not> Drumkit_valid doc then (Inl ValidationError, st)
         else (case create_document e (ascii ''drumkit'') doc st of
                 (new_id', st') \<Rightarrow> (Inr new_id', st'))))))"

section \<open>A concrete environment for the examples\<close>

text \<open>
  The theorems below hold for every environment. The examples run in this one. Its
  parser reads the format \<open>YYYY-MM-DD\<close>, one separator character, \<open>HH:MM:SS\<close> and an
  optional offset \<open>+HH:MM\<close> or \<open>+HH:MM:SS\<close> (or with \<open>-\<close>), with the value
  \<open>datetime.fromisoformat\<close> gives there (naive without an offset); it rejects every other
  string, of which the examples use only text that is no date at all.
\<close>

definition digit_value :: "nat \<Rightarrow> int option" where
  "digit_value c = (if 48 \<le> c \<and> c \<le> 57 then Some (int c - 48) else None)"

fun digits_value :: "pystr \<Rightarrow> int \<Rightarrow> int option" where
  "digits_value [] acc = Some acc"
| "digits_value (c # cs) acc =
     (case digit_value c of None \<Rightarrow> None | Some d \<Rightarrow> digits_value cs (acc * 10 + d))"

definition field_value :: "pystr \<Rightarrow> nat \<Rightarrow> nat \<Rightarrow> int option" where
  "field_value s pos len = digits_value (take len (drop pos s)) 0"

text \<open>The offset: \<open>None\<close> is a parse failure, \<open>Some None\<close> no offset (a naive value).\<close>

definition sample_offset :: "pystr \<Rightarrow> int option option" where
  "sample_offset s =
     (if s = [] then Some None
      else if (length s = 6 \<or> (length s = 9 \<and> s ! 6 = of_char CHR '':''))
              \<and> (s ! 0 = of_char CHR ''+'' \<or> s ! 0 = of_char CHR ''-'')
              \<and> s ! 3 = of_char CHR '':''
        then (case (field_value s 1 2, field_value s 4 2, field_value s 7 2) of
                (Some h, Some m, Some sec) \<Rightarrow>
                  if h < 24 \<and> m < 60 \<and> sec < 60
                  then Some (Some ((if s ! 0 = of_char CHR ''-'' then - 1 else 1)
                                   * (h * 3600 + m * 60 + sec) * 1000000))
                  else None
              | _ \<Rightarrow> None)
      else None)"

definition sample_fromisoformat :: "pystr \<Rightarrow> datetime option" where
  "sample_fromisoformat s =
     (if length s < 19 \<or> s ! 4 \<noteq> of_char CHR ''-'' \<or> s ! 7 \<noteq> of_char CHR ''-''
         \<or> s ! 13 \<noteq> of_char CHR '':'' \<or> s ! 16 \<noteq> of_char CHR '':''
      then None
      else (case (field_value s 0 4, field_value s 5 2, field_value s 8 2) of
              (Some y, Some mo, Some d) \<Rightarrow>
                (case (field_value s 11 2, field_value s 14 2, field_value s 17 2) of
                   (Some h, Some mi, Some sec) \<Rightarrow>
                     (case sample_offset (drop 19 s) of
                        Some tz \<Rightarrow>
                          if 1 \<le> y \<and> 1 \<le> mo \<and> mo \<le> 12 \<and> 1 \<le> d \<and> d \<le> days_in_month y mo
                             \<and> h < 24 \<and> mi < 60 \<and> sec < 60
                          then Some \<lparr> year = y, month = mo, day = d, hour = h, minute = mi,
                                      second = sec, microsecond = 0, tzinfo = tz \<rparr>
                          else None
                      | None \<Rightarrow> None)
                 | _ \<Rightarrow> None)
            | _ \<Rightarrow> None))"

text \<open>
  The clock reads 2026-11-04 12:30:45.123456 UTC, and the identifier of a document is
  its collection name followed by the number of documents stored before it, in unary.
\<close>

definition sample_env :: env where
  "sample_env =
     \<lparr> fromisoformat = sample_fromisoformat,
       wall_clock = \<lparr> year = 2026, month = 11, day = 4, hour = 12, minute = 30,
                      second = 45, microsecond = 123456, tzinfo = Some 0 \<rparr>,
       new_id = (\<lambda>st collection_name doc.
                   collection_name @ replicate (length st) (of_char CHR ''i'')) \<rparr>"

text \<open>
  A body that satisfies the field constraints: not free, no offer, one tag, and a
  release date in the future of the sample clock.
\<close>

definition sample_payload :: DrumkitCreate where
  "sample_payload =
     \<lparr> archive_url = None,
       preview_urls = [],
       cover_url = None,
       title = ascii ''Kit'',
       release_at = ascii ''2030-01-01T00:00:00Z'',
       description = None,
       visibility = ascii ''publico'',
       tags = [ascii ''trap''],
       sounds_count = 10,
       price_original = 100,
       is_free = False,
       offer_fixed = None,
       offer_percent = None,
       owner_username = ascii ''ana'',
       collaborators = [] \<rparr>"

subsection \<open>Request bodies of the examples\<close>

text \<open>Variations of \<open>sample_payload\<close>, each named after what it changes.\<close>

definition four_tags :: "pystr list" where
  "four_tags = [ascii ''a'', ascii ''b'', ascii ''c'', ascii ''d'']"

definition payload_tags_and_date_wrong :: DrumkitCreate where
  "payload_tags_and_date_wrong = sample_payload\<lparr>tags := four_tags, release_at := ascii ''soon''\<rparr>"

definition payload_tags_and_offer_wrong :: DrumkitCreate where
  "payload_tags_and_offer_wrong = sample_payload\<lparr>tags := four_tags, offer_fixed := Some 150\<rparr>"

definition payload_offer_wrong_release_past :: DrumkitCreate where
  "payload_offer_wrong_release_past =
     sample_payload\<lparr>offer_fixed := Some 150, release_at := ascii ''2020-01-01T00:00:00Z''\<rparr>"

definition payload_free_with_offers :: DrumkitCreate where
  "payload_free_with_offers =
     sample_payload\<lparr>is_free := True, offer_fixed := Some 500, offer_percent := Some 50\<rparr>"

definition payload_fixed_and_percent :: DrumkitCreate where
  "payload_fixed_and_percent = sample_payload\<lparr>offer_fixed := Some 20, offer_percent := Some 50\<rparr>"

definition payload_percent :: DrumkitCreate where
  "payload_percent = sample_payload\<lparr>price_original := 50, offer_percent := Some 50\<rparr>"

definition payload_offer_wrong :: DrumkitCreate where
  "payload_offer_wrong = sample_payload\<lparr>offer_fixed := Some 150\<rparr>"

definition payload_date_wrong :: DrumkitCreate where
  "payload_date_wrong = sample_payload\<lparr>release_at := ascii ''soon''\<rparr>"

definition payload_release_naive :: DrumkitCreate where
  "payload_release_naive = sample_payload\<lparr>release_at := ascii ''2030-01-01T00:00:00''\<rparr>"

definition payload_release_last_minute :: DrumkitCreate where
  "payload_release_last_minute = sample_payload\<lparr>release_at := ascii ''2026-11-04T12:29:59Z''\<rparr>"

definition payload_release_this_minute :: DrumkitCreate where
  "payload_release_this_minute = sample_payload\<lparr>release_at := ascii ''2026-11-04T12:30:00Z''\<rparr>"

definition payload_percent_90 :: DrumkitCreate where
  "payload_percent_90 = sample_payload\<lparr>offer_percent := Some 90\<rparr>"

definition payload_percent_91 :: DrumkitCreate where
  "payload_percent_91 = sample_payload\<lparr>offer_percent := Some 91\<rparr>"

definition payload_release_offset_this_minute :: DrumkitCreate where
  "payload_release_offset_this_minute =
     sample_payload\<lparr>release_at := ascii ''2026-11-04T13:30:59+01:00''\<rparr>"

definition payload_release_seconds_offset :: DrumkitCreate where
  "payload_release_seconds_offset =
     sample_payload\<lparr>release_at := ascii ''2026-11-04T12:30:50+00:00:30''\<rparr>"

definition payload_tiny_fixed :: DrumkitCreate where
  "payload_tiny_fixed =
     sample_payload\<lparr>price_original := 1000, offer_fixed := Some (round_double (1 / 10 ^ 20))\<rparr>"

definition payload_one_percent_90 :: DrumkitCreate where
  "payload_one_percent_90 = sample_payload\<lparr>price_original := 1, offer_percent := Some 90\<rparr>"

definition payload_all_wrong :: DrumkitCreate where
  "payload_all_wrong =
     sample_payload\<lparr>tags := four_tags, offer_fixed := Some 150, release_at := ascii ''soon''\<rparr>"

text \<open>The timestamps that the sample parser reads from the release dates above.\<close>

definition utc_2030 :: datetime where
  "utc_2030 = \<lparr> year = 2030, month = 1, day = 1, hour = 0, minute = 0, second = 0,
                 microsecond = 0, tzinfo = Some 0 \<rparr>"

definition utc_2020 :: datetime where
  "utc_2020 = \<lparr> year = 2020, month = 1, day = 1, hour = 0, minute = 0, second = 0,
                 microsecond = 0, tzinfo = Some 0 \<rparr>"

definition utc_last_minute :: datetime where
  "utc_last_minute = \<lparr> year = 2026, month = 11, day = 4, hour = 12, minute = 29, second = 59,
                 microsecond = 0, tzinfo = Some 0 \<rparr>"

definition utc_this_minute :: datetime where
  "utc_this_minute = \<lparr> year = 2026, month = 11, day = 4, hour = 12, minute = 30, second = 0,
                 microsecond = 0, tzinfo = Some 0 \<rparr>"

definition plus_one_hour_this_minute :: datetime where
  "plus_one_hour_this_minute =
     \<lparr> year = 2026, month = 11, day = 4, hour = 13, minute = 30, second = 59,
       microsecond = 0, tzinfo = Some 3600000000 \<rparr>"

definition plus_thirty_seconds_this_minute :: datetime where
  "plus_thirty_seconds_this_minute =
     \<lparr> year = 2026, month = 11, day = 4, hour = 12, minute = 30, second = 50,
       microsecond = 0, tzinfo = Some 30000000 \<rparr>"

section \<open>Rounding\<close>

lemma min_normal_pos: "0 < min_normal"
  by (simp add: min_normal_def)

lemma min_subnormal_pos: "0 < min_subnormal"
  by (simp add: min_subnormal_def)

lemma pow2_split: "(2::real) powi (a + b) = 2 powi a * 2 powi b"
  by (rule power_int_add) simp

lemma half_quantum: "1 / 2 * (2::real) powi (e - 52) = 2 powi e / 2 ^ 53"
proof -
  have "(2::real) powi e = 2 powi (e - 52 + 52)" by simp
  also have "\<dots> = 2 powi (e - 52) * 2 powi 52" by (rule pow2_split)
  also have "(2::real) powi 52 = 2 ^ 52" by (rule power_int_numeral)
  finally have "(2::real) powi e / 2 ^ 53 = 2 powi (e - 52) * (2 ^ 52 / 2 ^ 53)" by simp
  also have "(2::real) ^ 52 / 2 ^ 53 = 1 / 2" by simp
  finally show ?thesis by simp
qed

lemma round_half_even_error: "\<bar>real_of_int (round_half_even y) - y\<bar> \<le> 1 / 2"
  unfolding round_half_even_def Let_def by (auto simp: abs_if) linarith+

lemma round_half_even_ge_1: "1 \<le> y \<Longrightarrow> 1 \<le> round_half_even y"
proof -
  assume "1 \<le> y"
  then have "1 \<le> \<lfloor>y\<rfloor>" by simp
  then show ?thesis
    unfolding round_half_even_def Let_def by auto
qed

lemma round_half_even_nonpos: "y \<le> 0 \<Longrightarrow> round_half_even y \<le> 0"
proof -
  assume y: "y \<le> 0"
  then have f: "\<lfloor>y\<rfloor> \<le> 0" by (simp add: floor_le_zero)
  show ?thesis
  proof (cases "\<lfloor>y\<rfloor> = 0")
    case True
    then have "0 \<le> y" by (metis floor_le_iff of_int_0 of_int_floor_le)
    with y have "y = 0" by simp
    then show ?thesis by (simp add: round_half_even_def)
  next
    case False
    with f have "\<lfloor>y\<rfloor> + 1 \<le> 0" by linarith
    with f show ?thesis
      unfolding round_half_even_def Let_def by auto
  qed
qed

lemma float_exponent_ge: "- 1022 \<le> float_exponent x"
proof -
  have "0 \<le> bitlen \<lfloor>\<bar>x\<bar>\<rfloor>" by (rule bitlen_nonneg)
  moreover have "1 \<le> bitlen \<lfloor>\<bar>x\<bar>\<rfloor>" if "1 \<le> \<bar>x\<bar>"
  proof -
    from that have "0 < \<lfloor>\<bar>x\<bar>\<rfloor>" by simp
    then have "bitlen \<lfloor>\<bar>x\<bar>\<rfloor> \<noteq> 0" by (simp add: bitlen_eq_zero_iff)
    with bitlen_nonneg [of "\<lfloor>\<bar>x\<bar>\<rfloor>"] show ?thesis by linarith
  qed
  ultimately show ?thesis
    by (auto simp: float_exponent_def)
qed

lemma float_exponent_lower:
  assumes "min_normal \<le> \<bar>x\<bar>"
  shows "2 powi (float_exponent x) \<le> \<bar>x\<bar>"
proof (cases "1 \<le> \<bar>x\<bar>")
  case True
  let ?n = "\<lfloor>\<bar>x\<bar>\<rfloor>"
  from True have n: "0 < ?n" by simp
  from bitlen_bounds [OF n] have "2 ^ nat (bitlen ?n - 1) \<le> ?n" by simp
  then have "(2::real) ^ nat (bitlen ?n - 1) \<le> real_of_int ?n"
    by (metis of_int_le_iff of_int_numeral of_int_power)
  also have "\<dots> \<le> \<bar>x\<bar>" by simp
  finally have le: "(2::real) ^ nat (bitlen ?n - 1) \<le> \<bar>x\<bar>" .
  have "1 \<le> bitlen ?n"
    using bitlen_eq_zero_iff [of ?n] bitlen_nonneg [of ?n] n by linarith
  then have "(2::real) powi (bitlen ?n - 1) = 2 ^ nat (bitlen ?n - 1)"
    by (simp add: power_int_def)
  with le True show ?thesis by (simp add: float_exponent_def)
next
  case False
  have pos: "0 < \<bar>x\<bar>"
    using assms min_normal_pos by linarith
  then have x0: "x \<noteq> 0" by simp
  let ?n = "\<lceil>1 / \<bar>x\<bar>\<rceil>"
  let ?b = "bitlen (?n - 1)"
  from False pos have "1 < 1 / \<bar>x\<bar>" by simp
  then have n: "0 < ?n - 1" by (simp add: less_ceiling_iff)
  from bitlen_bounds [OF n] have "?n - 1 < 2 ^ nat ?b" by simp
  then have "?n \<le> 2 ^ nat ?b" by simp
  then have "real_of_int ?n \<le> 2 ^ nat ?b"
    by (metis of_int_le_iff of_int_numeral of_int_power)
  moreover have "1 / \<bar>x\<bar> \<le> real_of_int ?n" by simp
  ultimately have "1 / \<bar>x\<bar> \<le> 2 ^ nat ?b" by linarith
  then have "1 \<le> 2 ^ nat ?b * \<bar>x\<bar>"
    using pos by (simp add: field_simps)
  then have lower: "1 / 2 ^ nat ?b \<le> \<bar>x\<bar>"
    by (simp add: field_simps)
  have b0: "0 \<le> ?b" by (rule bitlen_nonneg)
  then have "(2::real) powi (- ?b) = 1 / 2 ^ nat ?b"
    by (simp add: power_int_def field_simps power_inverse)
  with lower have "2 powi (- ?b) \<le> \<bar>x\<bar>" by simp
  with assms False x0 show ?thesis
    by (simp add: float_exponent_def max_def min_normal_def)
qed

lemma float_exponent_subnormal:
  assumes "\<bar>x\<bar> < min_normal"
  shows "float_exponent x = - 1022"
proof (cases "x = 0")
  case True
  then show ?thesis by (simp add: float_exponent_def)
next
  case False
  then have pos: "0 < \<bar>x\<bar>" by simp
  have small: "min_normal \<le> 1"
    by (simp add: min_normal_def power_int_def field_simps)
  with assms have lt1: "\<not> 1 \<le> \<bar>x\<bar>" by linarith
  have "float_exponent x \<le> - 1022"
  proof (rule ccontr)
    assume "\<not> float_exponent x \<le> - 1022"
    then have big: "- 1022 < float_exponent x" by simp
    let ?n = "\<lceil>1 / \<bar>x\<bar>\<rceil>"
    let ?b = "bitlen (?n - 1)"
    from big lt1 False have e: "float_exponent x = - ?b" and b: "?b < 1022"
      by (auto simp: float_exponent_def max_def split: if_splits)
    from lt1 pos have "1 < 1 / \<bar>x\<bar>" by simp
    then have n: "0 < ?n - 1" by (simp add: less_ceiling_iff)
    have "1 / \<bar>x\<bar> > 2 ^ 1022"
      using assms pos by (simp add: min_normal_def power_int_def field_simps power_inverse)
    then have "(2::real) ^ 1022 < real_of_int ?n"
      by (rule less_le_trans) (rule le_of_int_ceiling)
    then have "(2::int) ^ 1022 < ?n"
      by (metis of_int_less_iff of_int_numeral of_int_power)
    then have "(2::int) ^ 1022 \<le> ?n - 1" by simp
    also from bitlen_bounds [OF n] have "?n - 1 < 2 ^ nat ?b" by simp
    finally have lt: "(2::int) ^ 1022 < 2 ^ nat ?b" .
    have "1022 < nat ?b"
    proof (rule power_less_imp_less_exp)
      show "1 < (2::int)" by simp
      show "(2::int) ^ 1022 < 2 ^ nat ?b" by (fact lt)
    qed
    with b show False by simp
  qed
  with float_exponent_ge [of x] show ?thesis by simp
qed

lemma quantum_le:
  assumes "min_subnormal \<le> \<bar>x\<bar>"
  shows "2 powi (float_exponent x - 52) \<le> \<bar>x\<bar>"
proof (cases "\<bar>x\<bar> < min_normal")
  case True
  then have "float_exponent x = - 1022"
    by (rule float_exponent_subnormal)
  then have "(2::real) powi (float_exponent x - 52) = min_subnormal"
    by (simp add: min_subnormal_def)
  with assms show ?thesis by (simp only:)
next
  case False
  then have "2 powi (float_exponent x) \<le> \<bar>x\<bar>"
    by (intro float_exponent_lower) simp
  moreover have "(2::real) powi (float_exponent x - 52) \<le> 2 powi (float_exponent x)"
    by (intro power_int_increasing) simp_all
  ultimately show ?thesis by linarith
qed

lemma round_double_pos:
  assumes "min_subnormal \<le> x"
  shows "0 < round_double x"
proof -
  let ?q = "float_exponent x - 52"
  have q: "(0::real) < 2 powi ?q" by simp
  have "0 < x" using assms min_subnormal_pos by linarith
  then have "2 powi ?q \<le> x"
    using quantum_le [of x] assms by simp
  then have "1 \<le> x / 2 powi ?q"
    using q by (simp add: field_simps)
  then have "1 \<le> round_half_even (x / 2 powi ?q)"
    by (rule round_half_even_ge_1)
  then have "0 < real_of_int (round_half_even (x / 2 powi ?q))" by simp
  with q show ?thesis
    by (simp add: round_double_def Let_def)
qed

lemma round_double_nonpos:
  assumes "x \<le> 0"
  shows "round_double x \<le> 0"
proof -
  let ?q = "float_exponent x - 52"
  have q: "(0::real) < 2 powi ?q" by simp
  then have "x / 2 powi ?q \<le> 0"
    using assms by (simp add: field_simps)
  then have "round_half_even (x / 2 powi ?q) \<le> 0"
    by (rule round_half_even_nonpos)
  then have "real_of_int (round_half_even (x / 2 powi ?q)) \<le> 0" by simp
  with q show ?thesis
    by (simp add: round_double_def Let_def mult_le_0_iff)
qed

lemma round_double_error:
  assumes "min_normal \<le> \<bar>x\<bar>"
  shows "\<bar>round_double x - x\<bar> \<le> \<bar>x\<bar> / 2 ^ 53"
proof -
  let ?e = "float_exponent x"
  let ?q = "?e - 52"
  let ?y = "x / 2 powi ?q"
  have q: "(0::real) < 2 powi ?q" by simp
  have "round_double x - x = (real_of_int (round_half_even ?y) - ?y) * 2 powi ?q"
    using q by (simp add: round_double_def Let_def field_simps)
  then have "\<bar>round_double x - x\<bar> = \<bar>real_of_int (round_half_even ?y) - ?y\<bar> * 2 powi ?q"
    using q by (simp add: abs_mult)
  also have "\<dots> \<le> 1 / 2 * 2 powi ?q"
    using round_half_even_error [of ?y] q by (intro mult_right_mono) simp_all
  also have "1 / 2 * (2::real) powi ?q = 2 powi ?e / 2 ^ 53"
    by (rule half_quantum)
  also have "\<dots> \<le> \<bar>x\<bar> / 2 ^ 53"
    using float_exponent_lower [OF assms] by (intro divide_right_mono) simp_all
  finally show ?thesis .
qed

lemma round_double_grid: "\<exists>n::int. round_double x = real_of_int n * min_subnormal"
proof -
  let ?q = "float_exponent x - 52"
  let ?r = "round_half_even (x / 2 powi ?q)"
  have "0 \<le> ?q + 1074" using float_exponent_ge [of x] by simp
  then have "(2::real) powi (?q + 1074) = real_of_int (2 ^ nat (?q + 1074))"
    by (simp add: power_int_def)
  moreover have "(2::real) powi ?q = 2 powi (?q + 1074) * min_subnormal"
  proof -
    have "?q = ?q + 1074 + (- 1074)" by simp
    then have "(2::real) powi ?q = 2 powi (?q + 1074 + (- 1074))" by (rule arg_cong)
    also have "\<dots> = 2 powi (?q + 1074) * 2 powi (- 1074)" by (rule pow2_split)
    finally show ?thesis by (simp only: min_subnormal_def)
  qed
  ultimately have "round_double x = real_of_int (?r * 2 ^ nat (?q + 1074)) * min_subnormal"
    by (simp add: round_double_def Let_def)
  then show ?thesis ..
qed

lemma double_difference:
  assumes "is_double a" and "is_double b" and "b < a"
  shows "min_subnormal \<le> a - b"
proof -
  from assms(1) round_double_grid [of a] obtain m :: int where a: "a = real_of_int m * min_subnormal"
    by (auto simp: is_double_def)
  from assms(2) round_double_grid [of b] obtain n :: int where b: "b = real_of_int n * min_subnormal"
    by (auto simp: is_double_def)
  note u = min_subnormal_pos
  from assms(3) have "real_of_int n * min_subnormal < real_of_int m * min_subnormal"
    by (simp only: a b)
  with u have "real_of_int n < real_of_int m"
    by (simp only: mult_less_cancel_right_pos)
  then have "n + 1 \<le> m" by simp
  then have "real_of_int n + 1 \<le> real_of_int m"
    by (metis of_int_1 of_int_add of_int_le_iff)
  then have "(real_of_int n + 1) * min_subnormal \<le> real_of_int m * min_subnormal"
    using u by (simp only: mult_le_cancel_right_pos)
  then show ?thesis
    by (simp only: a b) (simp add: algebra_simps)
qed

lemma float_sub_pos:
  assumes "is_double a" and "is_double b" and "b < a"
  shows "0 < float_sub a b"
  unfolding float_sub_def by (rule round_double_pos [OF double_difference [OF assms]])

lemma min_normal_small: "min_normal \<le> 1 / 1024"
proof -
  have "(2::real) powi (- 1022) \<le> 2 powi (- 10)"
    by (rule power_int_increasing) simp_all
  also have "(2::real) powi (- 10) = 1 / 1024"
    by (simp add: power_int_minus_divide)
  finally show ?thesis by (simp only: min_normal_def)
qed

lemma min_subnormal_le_normal: "min_subnormal \<le> min_normal"
  unfolding min_subnormal_def min_normal_def by (rule power_int_increasing) simp_all

lemma scale_le: "0 \<le> (a::real) \<Longrightarrow> c \<le> d \<Longrightarrow> a * c \<le> a * d"
  by (rule mult_left_mono)

lemma round_double_lower:
  assumes "1 / 1024 \<le> x"
  shows "x / 2 \<le> round_double x"
proof -
  have n: "min_normal \<le> \<bar>x\<bar>"
    using assms min_normal_small by linarith
  have x: "0 \<le> x" using assms by linarith
  have "(1::real) / 2 ^ 53 \<le> 1 / 2" by simp
  with x have "x * (1 / 2 ^ 53) \<le> x * (1 / 2)" by (rule scale_le)
  then have "\<bar>x\<bar> / 2 ^ 53 \<le> x / 2" using x by simp
  with round_double_error [OF n] show ?thesis by linarith
qed

lemma round_double_upper:
  assumes "1 / 1024 \<le> x"
  shows "round_double x \<le> x + x / 100"
proof -
  have n: "min_normal \<le> \<bar>x\<bar>"
    using assms min_normal_small by linarith
  have x: "0 \<le> x" using assms by linarith
  have "(1::real) / 2 ^ 53 \<le> 1 / 100" by simp
  with x have "x * (1 / 2 ^ 53) \<le> x * (1 / 100)" by (rule scale_le)
  then have "\<bar>x\<bar> / 2 ^ 53 \<le> x / 100" using x by simp
  with round_double_error [OF n] show ?thesis by linarith
qed

lemma int_truediv_percent_upper:
  assumes "k \<le> 90"
  shows "int_truediv k 100 \<le> 91 / 100"
proof (cases "k \<le> 0")
  case True
  then have "real_of_int k / real_of_int 100 \<le> 0" by simp
  then have "int_truediv k 100 \<le> 0"
    unfolding int_truediv_def by (rule round_double_nonpos)
  then show ?thesis by simp
next
  case False
  then have "1 \<le> k" by simp
  then have "1 \<le> real_of_int k" by simp
  then have lo: "1 / 1024 \<le> real_of_int k / real_of_int 100" by simp
  from assms have "real_of_int k \<le> 90" by simp
  then have hi: "real_of_int k / real_of_int 100 \<le> 9 / 10" by simp
  from round_double_upper [OF lo] hi show ?thesis
    unfolding int_truediv_def by linarith
qed

lemma percent_price_pos:
  assumes "k \<le> 90" and "1 \<le> p"
  shows "0 < float_mul p (float_sub 1 (int_truediv k 100))"
proof -
  let ?b = "1 - int_truediv k 100"
  let ?t = "float_sub 1 (int_truediv k 100)"
  have b: "9 / 100 \<le> ?b"
    using int_truediv_percent_upper [OF assms(1)] by linarith
  then have "1 / 1024 \<le> ?b" by linarith
  then have "?b / 2 \<le> round_double ?b" by (rule round_double_lower)
  moreover from b have "9 / 200 \<le> ?b / 2" by simp
  ultimately have t: "9 / 200 \<le> ?t"
    unfolding float_sub_def by (rule order_trans [rotated])
  then have "0 \<le> ?t" by linarith
  with assms(2) have "1 * ?t \<le> p * ?t"
    by (intro mult_right_mono)
  with t have "9 / 200 \<le> p * ?t" by linarith
  moreover have "min_subnormal \<le> 9 / 200"
    using min_subnormal_le_normal min_normal_small by linarith
  ultimately have "min_subnormal \<le> p * ?t" by linarith
  then show ?thesis
    unfolding float_mul_def by (rule round_double_pos)
qed

section \<open>The comparison of timestamps orders instants\<close>

lemma month_cases:
  "1 \<le> (m::int) \<Longrightarrow> m \<le> 12 \<Longrightarrow>
     m = 1 \<or> m = 2 \<or> m = 3 \<or> m = 4 \<or> m = 5 \<or> m = 6 \<or> m = 7 \<or> m = 8 \<or> m = 9
     \<or> m = 10 \<or> m = 11 \<or> m = 12"
  by arith

lemma days_before_month_nonneg: "0 \<le> days_before_month y m"
  using month_cases [of m] by (auto simp: days_before_month_def)

lemma days_before_month_Suc:
  assumes "1 \<le> m" and "m < 12"
  shows "days_before_month y (m + 1) = days_before_month y m + days_in_month y m"
  using month_cases [of m] assms
  by (auto simp: days_before_month_def days_in_month_def)

lemma days_in_month_nonneg: "0 \<le> days_in_month y m"
  using month_cases [of m] by (auto simp: days_in_month_def)

lemma days_before_month_mono:
  assumes "1 \<le> m" and "m \<le> m'" and "m' \<le> 12"
  shows "days_before_month y m \<le> days_before_month y m'"
proof -
  have "m' \<le> 12 \<longrightarrow> days_before_month y m \<le> days_before_month y m'"
    using assms(2)
  proof (induction m' rule: int_ge_induct)
    case base
    show ?case by simp
  next
    case (step i)
    show ?case
    proof
      assume "i + 1 \<le> 12"
      then have i: "i < 12" by simp
      with step have "days_before_month y m \<le> days_before_month y i" by simp
      moreover have "days_before_month y (i + 1) = days_before_month y i + days_in_month y i"
        using assms(1) step(1) i by (intro days_before_month_Suc) simp_all
      ultimately show "days_before_month y m \<le> days_before_month y (i + 1)"
        using days_in_month_nonneg [of y i] by linarith
    qed
  qed
  with assms(3) show ?thesis by simp
qed

lemma days_before_month_next:
  assumes "1 \<le> m" and "m < m'" and "m' \<le> 12"
  shows "days_before_month y m + days_in_month y m \<le> days_before_month y m'"
proof -
  have "days_before_month y (m + 1) = days_before_month y m + days_in_month y m"
    using assms by (intro days_before_month_Suc) simp_all
  moreover have "days_before_month y (m + 1) \<le> days_before_month y m'"
    using assms by (intro days_before_month_mono) simp_all
  ultimately show ?thesis by simp
qed

lemma day_of_year_le:
  assumes "1 \<le> m" and "m \<le> 12" and "d \<le> days_in_month y m"
  shows "days_before_month y m + d \<le> 365 + (if is_leap y then 1 else 0)"
proof -
  have "days_before_month y m \<le> days_before_month y 12"
    using assms by (intro days_before_month_mono) simp_all
  moreover have "days_in_month y m \<le> 31"
    using month_cases [OF assms(1,2)] by (auto simp: days_in_month_def)
  moreover have "days_before_month y 12 = 334 + (if is_leap y then 1 else 0)"
    by (simp add: days_before_month_def)
  ultimately show ?thesis using assms(3) by (simp split: if_splits)
qed

lemma div_pred:
  assumes "0 < (c::int)"
  shows "(y - 1) div c = y div c - (if y mod c = 0 then 1 else 0)"
proof (cases "y mod c = 0")
  case True
  have "y = c * (y div c) + y mod c" by simp
  with True have "y - 1 = c * (y div c - 1) + (c - 1)"
    by (simp add: algebra_simps)
  then have "(y - 1) div c = y div c - 1"
    by (rule int_div_pos_eq) (use assms in simp_all)
  with True show ?thesis by simp
next
  case False
  have r: "0 \<le> y mod c" "y mod c < c"
    using assms by simp_all
  with False have r1: "0 \<le> y mod c - 1" by simp
  have "y = c * (y div c) + y mod c" by simp
  then have "y - 1 = c * (y div c) + (y mod c - 1)" by simp
  then have "(y - 1) div c = y div c"
    by (rule int_div_pos_eq) (use r r1 in simp_all)
  with False show ?thesis by simp
qed

lemma mod_400_100: "(y::int) mod 100 = 0" if "y mod 400 = 0"
proof -
  from that have "400 dvd y" by (simp add: dvd_eq_mod_eq_0)
  moreover have "(100::int) dvd 400" by simp
  ultimately have "100 dvd y" by (rule dvd_trans [rotated])
  then show ?thesis by (simp add: dvd_eq_mod_eq_0)
qed

lemma mod_100_4: "(y::int) mod 4 = 0" if "y mod 100 = 0"
proof -
  from that have "100 dvd y" by (simp add: dvd_eq_mod_eq_0)
  moreover have "(4::int) dvd 100" by simp
  ultimately have "4 dvd y" by (rule dvd_trans [rotated])
  then show ?thesis by (simp add: dvd_eq_mod_eq_0)
qed

lemma leap_indicator:
  "(if is_leap y then 1 else 0)
     = (if y mod 4 = 0 then 1 else 0) - (if y mod 100 = 0 then 1 else 0)
       + (if y mod 400 = 0 then (1::int) else 0)"
proof (cases "y mod 400 = 0")
  case True
  with mod_400_100 [OF True] mod_100_4 [OF mod_400_100 [OF True]] show ?thesis
    by (simp add: is_leap_def)
next
  case n400: False
  show ?thesis
  proof (cases "y mod 100 = 0")
    case True
    with n400 mod_100_4 [OF True] show ?thesis by (simp add: is_leap_def)
  next
    case False
    with n400 show ?thesis by (simp add: is_leap_def)
  qed
qed

lemma days_before_year_Suc:
  "days_before_year (y + 1) = days_before_year y + 365 + (if is_leap y then 1 else 0)"
proof -
  have d4: "(y - 1) div 4 = y div 4 - (if y mod 4 = 0 then 1 else 0)"
    by (rule div_pred) simp
  have d100: "(y - 1) div 100 = y div 100 - (if y mod 100 = 0 then 1 else 0)"
    by (rule div_pred) simp
  have d400: "(y - 1) div 400 = y div 400 - (if y mod 400 = 0 then 1 else 0)"
    by (rule div_pred) simp
  have a: "days_before_year (y + 1) = y * 365 + y div 4 - y div 100 + y div 400"
    by (simp add: days_before_year_def)
  have b: "days_before_year y = (y - 1) * 365 + (y - 1) div 4 - (y - 1) div 100 + (y - 1) div 400"
    by (simp add: days_before_year_def Let_def)
  have "days_before_year y + 365 + (if is_leap y then 1 else 0)
          = (y - 1) * 365 + (y div 4 - (if y mod 4 = 0 then 1 else 0))
            - (y div 100 - (if y mod 100 = 0 then 1 else 0))
            + (y div 400 - (if y mod 400 = 0 then 1 else 0)) + 365
            + ((if y mod 4 = 0 then 1 else 0) - (if y mod 100 = 0 then 1 else 0)
               + (if y mod 400 = 0 then 1 else 0))"
    by (simp only: b d4 d100 d400 leap_indicator)
  also have "\<dots> = y * 365 + y div 4 - y div 100 + y div 400"
    by (simp only: left_diff_distrib)
  finally show ?thesis by (simp only: a)
qed

lemma days_before_year_mono:
  assumes "y \<le> y'"
  shows "days_before_year y \<le> days_before_year y'"
  using assms
proof (induction y' rule: int_ge_induct)
  case base
  show ?case by simp
next
  case (step i)
  have "days_before_year i \<le> days_before_year (i + 1)"
    by (simp only: days_before_year_Suc split: if_splits) simp
  with step show ?case by linarith
qed

lemma toordinal_year_less:
  assumes "datetime_valid a" and "datetime_valid b" and "year a < year b"
  shows "toordinal a < toordinal b"
proof -
  have "days_before_month (year a) (month a) + day a
          \<le> 365 + (if is_leap (year a) then 1 else 0)"
    using assms(1) by (intro day_of_year_le) (simp_all add: datetime_valid_def)
  then have "toordinal a \<le> days_before_year (year a + 1)"
    by (simp only: toordinal_def days_before_year_Suc)
  also have "\<dots> \<le> days_before_year (year b)"
    using assms(3) by (intro days_before_year_mono) simp
  also have "\<dots> < toordinal b"
    using assms(2) days_before_month_nonneg [of "year b" "month b"]
    by (simp add: toordinal_def datetime_valid_def)
  finally show ?thesis .
qed

lemma toordinal_month_less:
  assumes "datetime_valid a" and "datetime_valid b" and "year a = year b"
    and "month a < month b"
  shows "toordinal a < toordinal b"
proof -
  have "days_before_month (year a) (month a) + days_in_month (year a) (month a)
          \<le> days_before_month (year a) (month b)"
    using assms by (intro days_before_month_next) (simp_all add: datetime_valid_def)
  moreover have "day a \<le> days_in_month (year a) (month a)" "1 \<le> day b"
    using assms(1,2) by (simp_all add: datetime_valid_def)
  ultimately show ?thesis
    using assms(3) by (simp add: toordinal_def)
qed

lemma toordinal_day_less:
  assumes "year a = year b" and "month a = month b" and "day a < day b"
  shows "toordinal a < toordinal b"
  using assms by (simp add: toordinal_def)

lemma date_lt_toordinal:
  assumes "datetime_valid a" and "datetime_valid b" and "date_lt a b"
  shows "toordinal a < toordinal b"
  using assms toordinal_year_less [of a b] toordinal_month_less [of a b]
    toordinal_day_less [of a b]
  unfolding date_lt_def by blast

lemma date_trichotomy: "date_lt a b \<or> date_eq a b \<or> date_lt b a"
  unfolding date_lt_def date_eq_def by linarith

lemma date_eq_toordinal: "date_eq a b \<Longrightarrow> toordinal a = toordinal b"
  by (simp add: date_eq_def toordinal_def)

lemma toordinal_less_iff:
  assumes "datetime_valid a" and "datetime_valid b"
  shows "toordinal a < toordinal b \<longleftrightarrow> date_lt a b"
  using date_trichotomy [of a b] date_lt_toordinal [OF assms] date_lt_toordinal [OF assms(2,1)]
    date_eq_toordinal [of a b]
  by (metis less_asym)

lemma toordinal_eq_iff:
  assumes "datetime_valid a" and "datetime_valid b"
  shows "toordinal a = toordinal b \<longleftrightarrow> date_eq a b"
  using date_trichotomy [of a b] date_lt_toordinal [OF assms] date_lt_toordinal [OF assms(2,1)]
    date_eq_toordinal [of a b]
  by (metis less_irrefl)

lemma radix_less:
  fixes q q' r r' B :: int
  assumes "0 \<le> r" and "r < B" and "0 \<le> r'" and "r' < B"
  shows "q * B + r < q' * B + r' \<longleftrightarrow> q < q' \<or> (q = q' \<and> r < r')"
proof -
  have B: "0 < B" using assms by linarith
  have up: "x * B + s < x' * B + s'" if "x < x'" "s < B" "0 \<le> s'" for x x' s s' :: int
  proof -
    from that(1) have "x + 1 \<le> x'" by simp
    then have "(x + 1) * B \<le> x' * B" using B by (intro mult_right_mono) simp_all
    then have "x * B + B \<le> x' * B" by (simp add: algebra_simps)
    with that(2,3) show ?thesis by linarith
  qed
  show ?thesis
  proof (cases "q < q'")
    case True
    with up [of q q' r r'] assms show ?thesis by simp
  next
    case False
    show ?thesis
    proof (cases "q = q'")
      case True
      then show ?thesis by simp
    next
      case neq: False
      with False have "q' < q" by simp
      with up [of q' q r' r] assms have "q' * B + r' < q * B + r" by simp
      with False neq show ?thesis by simp
    qed
  qed
qed

lemma radix_eq:
  fixes q q' r r' B :: int
  assumes "0 \<le> r" and "r < B" and "0 \<le> r'" and "r' < B"
  shows "q * B + r = q' * B + r' \<longleftrightarrow> q = q' \<and> r = r'"
  using radix_less [OF assms, of q q'] radix_less [OF assms(3,4,1,2), of q' q]
  by (metis less_irrefl linorder_neqE_linordered_idom)

lemma time_of_day_bounds:
  assumes "datetime_valid dt"
  shows "0 \<le> time_of_day dt" and "time_of_day dt < 86400000000"
  using assms unfolding time_of_day_def datetime_valid_def by auto

lemma time_of_day_less:
  assumes "datetime_valid a" and "datetime_valid b"
  shows "time_of_day a < time_of_day b \<longleftrightarrow>
           tuple_lt [hour a, minute a, second a, microsecond a]
                    [hour b, minute b, second b, microsecond b]"
proof -
  have va: "0 \<le> minute a" "minute a < 60" "0 \<le> second a" "second a < 60"
      "0 \<le> microsecond a" "microsecond a < 1000000"
    and vb: "0 \<le> minute b" "minute b < 60" "0 \<le> second b" "second b < 60"
      "0 \<le> microsecond b" "microsecond b < 1000000"
    using assms by (simp_all add: datetime_valid_def)
  have ta: "time_of_day a = ((hour a * 60 + minute a) * 60 + second a) * 1000000 + microsecond a"
    and tb: "time_of_day b = ((hour b * 60 + minute b) * 60 + second b) * 1000000 + microsecond b"
    by (simp_all add: time_of_day_def)
  have "time_of_day a < time_of_day b \<longleftrightarrow>
          (hour a * 60 + minute a) * 60 + second a < (hour b * 60 + minute b) * 60 + second b
          \<or> ((hour a * 60 + minute a) * 60 + second a = (hour b * 60 + minute b) * 60 + second b
              \<and> microsecond a < microsecond b)"
    unfolding ta tb using va vb by (intro radix_less)
  also have "(hour a * 60 + minute a) * 60 + second a < (hour b * 60 + minute b) * 60 + second b
          \<longleftrightarrow> hour a * 60 + minute a < hour b * 60 + minute b
              \<or> (hour a * 60 + minute a = hour b * 60 + minute b \<and> second a < second b)"
    using va vb by (intro radix_less)
  also have "hour a * 60 + minute a < hour b * 60 + minute b
          \<longleftrightarrow> hour a < hour b \<or> (hour a = hour b \<and> minute a < minute b)"
    using va vb by (intro radix_less)
  finally have "time_of_day a < time_of_day b \<longleftrightarrow>
          ((hour a < hour b \<or> (hour a = hour b \<and> minute a < minute b))
           \<or> (hour a * 60 + minute a = hour b * 60 + minute b \<and> second a < second b))
          \<or> ((hour a * 60 + minute a) * 60 + second a = (hour b * 60 + minute b) * 60 + second b
              \<and> microsecond a < microsecond b)" .
  moreover have hm: "hour a * 60 + minute a = hour b * 60 + minute b
                       \<longleftrightarrow> hour a = hour b \<and> minute a = minute b"
    using va vb by (intro radix_eq)
  moreover have "(hour a * 60 + minute a) * 60 + second a = (hour b * 60 + minute b) * 60 + second b
                   \<longleftrightarrow> hour a * 60 + minute a = hour b * 60 + minute b \<and> second a = second b"
    using va vb by (intro radix_eq)
  ultimately show ?thesis
    by (simp only: tuple_lt.simps) blast
qed

lemma utc_microseconds_split:
  "utc_microseconds dt off = toordinal dt * 86400000000 + time_of_day dt - off"
  by (simp add: utc_microseconds_def time_of_day_def)

lemma tuple_lt_civil_fields:
  "tuple_lt (civil_fields a) (civil_fields b) \<longleftrightarrow>
     date_lt a b
     \<or> (date_eq a b \<and> tuple_lt [hour a, minute a, second a, microsecond a]
                                 [hour b, minute b, second b, microsecond b])"
  unfolding civil_fields_def date_lt_def date_eq_def by (simp only: tuple_lt.simps) blast

lemma tuple_lt_instants:
  assumes "datetime_valid a" and "datetime_valid b"
  shows "tuple_lt (civil_fields a) (civil_fields b) \<longleftrightarrow>
           utc_microseconds a off < utc_microseconds b off"
proof -
  have "utc_microseconds a off < utc_microseconds b off \<longleftrightarrow>
          toordinal a * 86400000000 + time_of_day a < toordinal b * 86400000000 + time_of_day b"
    by (simp add: utc_microseconds_split)
  also have "\<dots> \<longleftrightarrow> toordinal a < toordinal b
                   \<or> (toordinal a = toordinal b \<and> time_of_day a < time_of_day b)"
    using time_of_day_bounds [OF assms(1)] time_of_day_bounds [OF assms(2)]
    by (intro radix_less)
  also have "\<dots> \<longleftrightarrow> date_lt a b
                   \<or> (date_eq a b \<and> tuple_lt [hour a, minute a, second a, microsecond a]
                                               [hour b, minute b, second b, microsecond b])"
    by (simp only: toordinal_less_iff [OF assms] toordinal_eq_iff [OF assms]
          time_of_day_less [OF assms])
  finally show ?thesis by (simp only: tuple_lt_civil_fields)
qed

lemma base_delta_instants:
  "base_delta a b + otoff - myoff = utc_microseconds a myoff - utc_microseconds b otoff"
  by (simp add: base_delta_def utc_microseconds_def algebra_simps)

lemma datetime_lt_instants:
  assumes "datetime_valid a" and "datetime_valid b"
    and "tzinfo a = Some myoff" and "tzinfo b = Some otoff"
  shows "datetime_lt a b = Inr (utc_microseconds a myoff < utc_microseconds b otoff)"
proof (cases "myoff = otoff")
  case True
  with assms(3,4) have "datetime_lt a b = Inr (tuple_lt (civil_fields a) (civil_fields b))"
    by (simp add: datetime_lt_def)
  with True show ?thesis
    by (simp only: tuple_lt_instants [OF assms(1,2), of otoff])
next
  case False
  with assms(3,4) have "datetime_lt a b = Inr (base_delta a b + otoff - myoff < 0)"
    by (simp add: datetime_lt_def)
  then show ?thesis
    by (simp only: base_delta_instants) simp
qed

lemma datetime_valid_replace:
  "datetime_valid dt \<Longrightarrow> datetime_valid (replace_second_microsecond dt)"
  by (simp add: datetime_valid_def replace_second_microsecond_def)

lemma utc_microseconds_replace:
  assumes "datetime_valid dt" and "off mod 60000000 = 0"
  shows "utc_microseconds (replace_second_microsecond dt) off = utc_minute dt off * 60000000"
proof -
  define d where "d = off div 60000000"
  define w where "w = toordinal dt * 1440 + hour dt * 60 + minute dt - d"
  define r where "r = second dt * 1000000 + microsecond dt"
  have off: "off = d * 60000000"
    using assms(2) unfolding d_def by (simp add: mod_eq_0_iff_dvd)
  have r: "0 \<le> r" "r < 60000000"
    using assms(1) by (simp_all add: r_def datetime_valid_def)
  have full: "utc_microseconds dt off = w * 60000000 + r"
    by (simp add: utc_microseconds_def r_def w_def off algebra_simps)
  have "(w * 60000000 + r) div 60000000 = w"
    using r by simp
  then have "utc_minute dt off = w"
    by (simp only: utc_minute_def full)
  moreover have "utc_microseconds (replace_second_microsecond dt) off = w * 60000000"
    by (simp add: utc_microseconds_def replace_second_microsecond_def toordinal_def w_def off
          algebra_simps)
  ultimately show ?thesis by simp
qed

lemma datetime_lt_truncated:
  assumes "datetime_valid a" and "datetime_valid b"
    and "tzinfo a = Some myoff" and "tzinfo b = Some otoff"
    and "myoff mod 60000000 = 0" and "otoff mod 60000000 = 0"
  shows "datetime_lt (replace_second_microsecond a) (replace_second_microsecond b)
           = Inr (utc_minute a myoff < utc_minute b otoff)"
proof -
  have "datetime_lt (replace_second_microsecond a) (replace_second_microsecond b)
          = Inr (utc_microseconds (replace_second_microsecond a) myoff
                   < utc_microseconds (replace_second_microsecond b) otoff)"
    using assms(1-4)
    by (intro datetime_lt_instants datetime_valid_replace)
       (simp_all add: replace_second_microsecond_def)
  then show ?thesis
    by (simp only: utc_microseconds_replace [OF assms(1,5)] utc_microseconds_replace [OF assms(2,6)])
       simp
qed

lemma datetime_valid_now: "datetime_valid (datetime_now_utc e) = datetime_valid (wall_clock e)"
  by (simp add: datetime_valid_def datetime_now_utc_def)

section \<open>How the steps of the endpoint compose\<close>

lemma check_tags_Inr:
  "check_tags p = Inr () \<longleftrightarrow> length (tags p) \<le> 3 \<and> (\<forall>t \<in> set (tags p). length t \<le> 15)"
  by (auto simp: check_tags_def list_ex_iff not_less dest: leD)

lemma tzinfo_replace_second_microsecond [simp]:
  "tzinfo (replace_second_microsecond dt) = tzinfo dt"
  by (simp add: replace_second_microsecond_def)

lemma tzinfo_datetime_now_utc [simp]: "tzinfo (datetime_now_utc e) = Some 0"
  by (simp add: datetime_now_utc_def)

lemma datetime_lt_naive:
  "tzinfo a = None \<Longrightarrow> tzinfo b = Some off \<Longrightarrow> datetime_lt a b = Inl TypeError"
  by (simp add: datetime_lt_def)

lemma datetime_lt_aware:
  "tzinfo a = Some x \<Longrightarrow> tzinfo b = Some y \<Longrightarrow> \<exists>r. datetime_lt a b = Inr r"
  by (simp add: datetime_lt_def)

lemma check_release_aware:
  assumes "check_release e p = Inr dt"
  shows "tzinfo dt \<noteq> None"
proof
  assume naive: "tzinfo dt = None"
  from assms obtain c where c: "fromisoformat e (str_replace (release_at p) (of_char CHR ''Z'') (ascii ''+00:00'')) = Some c"
    by (auto simp: check_release_def split: option.splits)
  with assms have "c = dt"
    by (auto simp: check_release_def split: sum.splits bool.splits)
  with naive have "datetime_lt (replace_second_microsecond c) (replace_second_microsecond (datetime_now_utc e)) = Inl TypeError"
    by (intro datetime_lt_naive) simp_all
  with assms c show False
    by (simp add: check_release_def)
qed

lemma pricing_price_nonneg:
  "pricing p = Inr (fp, of', op') \<Longrightarrow> 0 \<le> fp"
  by (auto simp: pricing_def split: if_splits)

lemma pricing_offers:
  "pricing p = Inr (fp, of', op') \<Longrightarrow>
     (of' = None \<or> of' = offer_fixed p) \<and> (op' = None \<or> op' = offer_percent p)"
  by (auto simp: pricing_def split: if_splits)

lemma Drumkit_valid_doc:
  assumes "DrumkitCreate_valid p" and "pricing p = Inr (fp, of', op')" and "tzinfo dt \<noteq> None"
  shows "Drumkit_valid (drumkit_doc p dt of' op' fp)"
proof -
  have "opt_all (\<lambda>f. 0 \<le> f) of'" "opt_all (\<lambda>k. 0 \<le> k \<and> k \<le> 90) op'"
    using pricing_offers [OF assms(2)] assms(1)
    by (auto simp: DrumkitCreate_valid_def opt_all_def)
  then show ?thesis
    using assms(1,3) pricing_price_nonneg [OF assms(2)]
    by (simp add: Drumkit_valid_def drumkit_doc_def DrumkitCreate_valid_def)
qed

lemma create_drumkit_stored:
  assumes "check_tags p = Inr ()" and "pricing p = Inr (fp, of', op')"
    and "check_release e p = Inr dt" and "Drumkit_valid (drumkit_doc p dt of' op' fp)"
  shows "create_drumkit e st p =
           (Inr (new_id e st (ascii ''drumkit'') (drumkit_doc p dt of' op' fp)),
            st @ [(ascii ''drumkit'', drumkit_doc p dt of' op' fp)])"
  using assms by (simp add: create_drumkit_def create_document_def Let_def)

lemma create_drumkit_release_error:
  assumes "check_tags p = Inr ()" and "pricing p = Inr x" and "check_release e p = Inl err"
  shows "create_drumkit e st p = (Inl err, st)"
  using assms by (cases x) (simp add: create_drumkit_def)

lemma create_drumkit_pricing_error:
  assumes "check_tags p = Inr ()" and "pricing p = Inl err"
  shows "create_drumkit e st p = (Inl err, st)"
  using assms by (simp add: create_drumkit_def)

lemma create_drumkit_Inr_cases:
  assumes "create_drumkit e st p = (Inr i, st')"
  shows "\<exists>fp of' op' dt.
           check_tags p = Inr () \<and> pricing p = Inr (fp, of', op') \<and> check_release e p = Inr dt
           \<and> Drumkit_valid (drumkit_doc p dt of' op' fp)
           \<and> i = new_id e st (ascii ''drumkit'') (drumkit_doc p dt of' op' fp)
           \<and> st' = st @ [(ascii ''drumkit'', drumkit_doc p dt of' op' fp)]"
  using assms
  by (auto simp: create_drumkit_def create_document_def Let_def
           split: sum.splits prod.splits if_splits)

lemma create_drumkit_Inl_storage:
  assumes "create_drumkit e st p = (Inl err, st')"
  shows "st' = st"
  using assms
  by (auto simp: create_drumkit_def create_document_def Let_def
           split: sum.splits prod.splits if_splits)

lemma create_drumkit_error_source:
  assumes "create_drumkit e st p = (Inl err, st')"
  shows "check_tags p = Inl err \<or> pricing p = Inl err \<or> check_release e p = Inl err
         \<or> err = ValidationError"
  using assms
  by (auto simp: create_drumkit_def create_document_def Let_def
           split: sum.splits prod.splits if_splits)

lemma check_tags_error: "check_tags p = Inl err \<Longrightarrow> err = InvalidTags"
  by (simp add: check_tags_def split: if_splits)

lemma datetime_lt_error: "datetime_lt a b = Inl err \<Longrightarrow> err = TypeError"
  by (auto simp: datetime_lt_def split: if_splits option.splits)

lemma check_release_error:
  "check_release e p = Inl err \<Longrightarrow>
     err = InvalidReleaseDate \<or> err = ReleaseDateInPast \<or> err = TypeError"
  by (auto simp: check_release_def split: option.splits sum.splits bool.splits
           dest: datetime_lt_error)

lemma pricing_error:
  "pricing p = Inl err \<Longrightarrow> err = OfferExceedsPrice \<or> err = OfferPercentTooHigh"
  by (auto simp: pricing_def split: if_splits)

lemma create_drumkit_offer_error:
  assumes "fst (create_drumkit e st p) = Inl err"
    and "err = OfferExceedsPrice \<or> err = OfferPercentTooHigh"
  shows "pricing p = Inl err"
proof -
  from assms(1) have "create_drumkit e st p = (Inl err, snd (create_drumkit e st p))"
    by (metis prod.collapse)
  from create_drumkit_error_source [OF this] assms(2) show ?thesis
    by (auto dest: check_tags_error check_release_error)
qed

lemma str_replace_absent: "old \<notin> set s \<Longrightarrow> str_replace s old new = s"
  by (induction s) (auto simp: str_replace_def)

lemma str_replace_append:
  "str_replace (s @ t) old new = str_replace s old new @ str_replace t old new"
  by (simp add: str_replace_def)

lemma str_replace_single: "str_replace [old] old new = new"
  by (simp add: str_replace_def)

lemma ascii_Z: "ascii ''Z'' = [of_char CHR ''Z'']"
  by (simp add: ascii_def)

lemma check_release_parse_failure:
  "check_release e p = Inl InvalidReleaseDate \<longleftrightarrow>
     fromisoformat e (str_replace (release_at p) (of_char CHR ''Z'') (ascii ''+00:00'')) = None"
  by (auto simp: check_release_def split: option.splits sum.splits bool.splits
           dest: datetime_lt_error)

lemma check_release_parsed:
  assumes "fromisoformat e (str_replace (release_at p) (of_char CHR ''Z'') (ascii ''+00:00''))
             = Some client_dt"
  shows "check_release e p =
           (case datetime_lt (replace_second_microsecond client_dt)
                             (replace_second_microsecond (datetime_now_utc e)) of
              Inl err \<Rightarrow> Inl err
            | Inr True \<Rightarrow> Inl ReleaseDateInPast
            | Inr False \<Rightarrow> Inr client_dt)"
  using assms by (simp add: check_release_def)

lemma create_drumkit_accepts:
  assumes "check_tags p = Inr ()" and "pricing p = Inr x" and "check_release e p = Inr dt"
    and "DrumkitCreate_valid p"
  shows "\<exists>doc. create_drumkit e st p
                 = (Inr (new_id e st (ascii ''drumkit'') doc), st @ [(ascii ''drumkit'', doc)])
               \<and> dk_release_at doc = dt"
proof -
  obtain fp of' op' where x: "x = (fp, of', op')"
    by (cases x)
  have "Drumkit_valid (drumkit_doc p dt of' op' fp)"
    using assms(4) assms(2) [unfolded x] check_release_aware [OF assms(3)]
    by (rule Drumkit_valid_doc)
  from create_drumkit_stored [OF assms(1) assms(2) [unfolded x] assms(3) this]
  show ?thesis
    by (intro exI [of _ "drumkit_doc p dt of' op' fp"]) (simp add: drumkit_doc_def)
qed

lemma stored_document:
  assumes "fst r = Inr i"
    and "\<forall>i st'. r = (Inr i, st') \<longrightarrow> (\<exists>doc. st' = st @ [(n, doc)] \<and> P doc)"
  shows "\<exists>doc. snd r = st @ [(n, doc)] \<and> P doc"
  using assms by (cases r) auto

section \<open>A release date without an offset\<close>

text \<open>
  Where the parser reads \<open>release_at\<close> as a naive timestamp, the comparison with the
  aware current time raises \<open>TypeError\<close>, which the handler of \<open>ValueError\<close> does not
  catch: the request ends in neither of the two release date rejections, and nothing
  is stored.
\<close>

lemma naive_release_date_type_error:
  assumes "check_tags payload = Inr ()" and "pricing payload = Inr x"
    and "fromisoformat e (str_replace (release_at payload) (of_char CHR ''Z'') (ascii ''+00:00''))
           = Some client_dt"
    and "tzinfo client_dt = None"
  shows "create_drumkit e st payload = (Inl TypeError, st)"
proof -
  have "datetime_lt (replace_second_microsecond client_dt)
                    (replace_second_microsecond (datetime_now_utc e)) = Inl TypeError"
    using assms(4) by (intro datetime_lt_naive [where off = 0]) simp_all
  then have "check_release e payload = Inl TypeError"
    by (simp add: check_release_parsed [OF assms(3)])
  with assms(1,2) show ?thesis by (rule create_drumkit_release_error)
qed

lemma naive_release_date_example:
  "create_drumkit sample_env [] payload_release_naive = (Inl TypeError, [])"
  by code_simp

section \<open>Properties\<close>

subsection \<open>The tag check\<close>

text \<open>
  C5. A submission with more than 3 tags, or with a tag longer than 15 characters, is
  rejected with \<open>InvalidTags\<close> and nothing is stored, whatever the rest of the
  submission holds: the tag check runs first.
\<close>

theorem invalid_tags_rejected_first:
  assumes "length (tags payload) > 3 \<or> (\<exists>t \<in> set (tags payload). length t > 15)"
  shows "create_drumkit e st payload = (Inl InvalidTags, st)"
proof -
  have "check_tags payload = Inl InvalidTags"
    using assms by (auto simp: check_tags_def list_ex_iff)
  then show ?thesis by (simp add: create_drumkit_def)
qed

text \<open>
  Four tags, together with a fixed offer above the price and a release date that is no
  date: the outcome is \<open>InvalidTags\<close>.
\<close>

theorem invalid_tags_rejected_first_witness:
  "length (tags payload_all_wrong) > 3
   \<and> create_drumkit sample_env [] payload_all_wrong = (Inl InvalidTags, [])"
proof -
  have h: "length (tags payload_all_wrong) > 3"
    by code_simp
  from h invalid_tags_rejected_first [OF disjI1 [OF h], of sample_env "[]"]
  show ?thesis by blast
qed

subsection \<open>Pricing\<close>

text \<open>
  C2. For a submission with \<open>is_free\<close>, the computed final price is 0 and both offers
  are discarded, whatever offers the submission holds: the pricing step yields
  \<open>(0, None, None)\<close>, no offer rejection can be the outcome, and a document that is
  stored has the final price 0 and no offer field.
\<close>

theorem free_price_zero_offers_discarded:
  assumes "is_free payload"
  shows "pricing payload = Inr (0, None, None)
         \<and> fst (create_drumkit e st payload) \<noteq> Inl OfferExceedsPrice
         \<and> fst (create_drumkit e st payload) \<noteq> Inl OfferPercentTooHigh
         \<and> (\<forall>i st'. create_drumkit e st payload = (Inr i, st') \<longrightarrow>
               (\<exists>doc. st' = st @ [(ascii ''drumkit'', doc)] \<and> dk_price_final doc = 0
                      \<and> dk_offer_fixed doc = None \<and> dk_offer_percent doc = None))"
proof -
  have pr: "pricing payload = Inr (0, None, None)"
    using assms by (simp add: pricing_def)
  have no_offer_error: "fst (create_drumkit e st payload) \<noteq> Inl err"
    if "err = OfferExceedsPrice \<or> err = OfferPercentTooHigh" for err
    using create_drumkit_offer_error [OF _ that, of e st payload] pr by auto
  have stored: "\<exists>doc. st' = st @ [(ascii ''drumkit'', doc)] \<and> dk_price_final doc = 0
                      \<and> dk_offer_fixed doc = None \<and> dk_offer_percent doc = None"
    if "create_drumkit e st payload = (Inr i, st')" for i st'
    using create_drumkit_Inr_cases [OF that] pr by (auto simp: drumkit_doc_def)
  from pr no_offer_error stored show ?thesis by blast
qed

text \<open>
  A free submission with a fixed offer of 500 on a price of 100 and a percent offer:
  it is stored with the final price 0 and without the offers.
\<close>

theorem free_price_zero_offers_discarded_witness:
  "is_free payload_free_with_offers
   \<and> offer_fixed payload_free_with_offers = Some 500
   \<and> offer_percent payload_free_with_offers = Some 50
   \<and> pricing payload_free_with_offers = Inr (0, None, None)
   \<and> fst (create_drumkit sample_env [] payload_free_with_offers) = Inr (ascii ''drumkit'')
   \<and> map (\<lambda>(n, d). (n, dk_price_final d, dk_offer_fixed d, dk_offer_percent d))
          (snd (create_drumkit sample_env [] payload_free_with_offers))
       = [(ascii ''drumkit'', 0, None, None)]"
proof -
  have h: "is_free payload_free_with_offers"
    and o: "offer_fixed payload_free_with_offers = Some 500"
      "offer_percent payload_free_with_offers = Some 50"
    and acc: "fst (create_drumkit sample_env [] payload_free_with_offers) = Inr (ascii ''drumkit'')"
    by code_simp+
  note inst = free_price_zero_offers_discarded [OF h, where e = sample_env and st = "[]"]
  from inst have "\<forall>i st'. create_drumkit sample_env [] payload_free_with_offers = (Inr i, st') \<longrightarrow>
               (\<exists>doc. st' = [] @ [(ascii ''drumkit'', doc)] \<and> (dk_price_final doc = 0
                      \<and> dk_offer_fixed doc = None \<and> dk_offer_percent doc = None))"
    by simp
  from stored_document [OF acc this]
  have "map (\<lambda>(n, d). (n, dk_price_final d, dk_offer_fixed d, dk_offer_percent d))
          (snd (create_drumkit sample_env [] payload_free_with_offers))
       = [(ascii ''drumkit'', 0, None, None)]"
    by auto
  with h o acc inst show ?thesis by blast
qed

text \<open>
  C3. For a non-free submission (a request body, so within its field constraints) with
  a fixed offer \<open>f\<close> below the original price, the final price is
  \<open>price_original - f\<close>, the subtraction of floats, clamped at 0, whether or not a
  percent offer is present: the percent offer plays no part in the price.
\<close>

theorem fixed_offer_price:
  assumes "\<not> is_free payload" and "offer_fixed payload = Some f"
    and "f < price_original payload" and "DrumkitCreate_valid payload"
  shows "pricing payload
           = Inr (max (float_sub (price_original payload) f) 0, Some f, offer_percent payload)
         \<and> (\<forall>i st'. create_drumkit e st payload = (Inr i, st') \<longrightarrow>
               (\<exists>doc. st' = st @ [(ascii ''drumkit'', doc)]
                      \<and> dk_price_final doc = max (float_sub (price_original payload) f) 0))"
proof -
  have "\<not> opt_ex (\<lambda>k. k > 90) (offer_percent payload)"
    using assms(4) by (auto simp: DrumkitCreate_valid_def opt_all_def opt_ex_def split: option.splits)
  then have pr: "pricing payload
                   = Inr (max (float_sub (price_original payload) f) 0, Some f, offer_percent payload)"
    using assms(1-3) by (simp add: pricing_def opt_ex_def discounted_price_def)
  have "\<exists>doc. st' = st @ [(ascii ''drumkit'', doc)]
              \<and> dk_price_final doc = max (float_sub (price_original payload) f) 0"
    if "create_drumkit e st payload = (Inr i, st')" for i st'
    using create_drumkit_Inr_cases [OF that] pr by (auto simp: drumkit_doc_def)
  with pr show ?thesis by blast
qed

text \<open>
  Price 100 with a fixed offer of 20 and a percent offer of 50: the final price is 80.
  Price 1000 with a fixed offer of \<open>1e-20\<close>, the float nearest to that number: the
  subtraction rounds, and the final price is 1000.
\<close>

theorem fixed_offer_price_witness:
  "\<not> is_free payload_fixed_and_percent
   \<and> offer_fixed payload_fixed_and_percent = Some 20
   \<and> offer_percent payload_fixed_and_percent = Some 50
   \<and> 20 < price_original payload_fixed_and_percent
   \<and> DrumkitCreate_valid payload_fixed_and_percent
   \<and> pricing payload_fixed_and_percent = Inr (80, Some 20, Some 50)
   \<and> fst (create_drumkit sample_env [] payload_fixed_and_percent) = Inr (ascii ''drumkit'')
   \<and> map (\<lambda>(n, d). (n, dk_price_final d)) (snd (create_drumkit sample_env [] payload_fixed_and_percent))
       = [(ascii ''drumkit'', 80)]
   \<and> \<not> is_free payload_tiny_fixed
   \<and> offer_fixed payload_tiny_fixed = Some (round_double (1 / 10 ^ 20))
   \<and> round_double (1 / 10 ^ 20) < price_original payload_tiny_fixed
   \<and> DrumkitCreate_valid payload_tiny_fixed
   \<and> pricing payload_tiny_fixed = Inr (1000, Some (round_double (1 / 10 ^ 20)), None)"
proof -
  have h: "\<not> is_free payload_fixed_and_percent"
      "offer_fixed payload_fixed_and_percent = Some 20"
      "20 < price_original payload_fixed_and_percent"
      "DrumkitCreate_valid payload_fixed_and_percent"
    and o: "offer_percent payload_fixed_and_percent = Some 50"
      "max (float_sub (price_original payload_fixed_and_percent) 20) 0 = 80"
    and acc: "fst (create_drumkit sample_env [] payload_fixed_and_percent) = Inr (ascii ''drumkit'')"
    by code_simp+
  have h': "\<not> is_free payload_tiny_fixed"
      "offer_fixed payload_tiny_fixed = Some (round_double (1 / 10 ^ 20))"
      "round_double (1 / 10 ^ 20) < price_original payload_tiny_fixed"
      "DrumkitCreate_valid payload_tiny_fixed"
    and o': "offer_percent payload_tiny_fixed = None"
      "max (float_sub (price_original payload_tiny_fixed) (round_double (1 / 10 ^ 20))) 0 = 1000"
    by code_simp+
  note inst = fixed_offer_price [OF h, where e = sample_env and st = "[]"]
  note inst' = fixed_offer_price [OF h', where e = sample_env and st = "[]"]
  from inst have pr: "pricing payload_fixed_and_percent = Inr (80, Some 20, Some 50)"
    by (simp only: o)
  from inst' have pr': "pricing payload_tiny_fixed = Inr (1000, Some (round_double (1 / 10 ^ 20)), None)"
    by (simp only: o')
  from inst have "\<forall>i st'. create_drumkit sample_env [] payload_fixed_and_percent = (Inr i, st') \<longrightarrow>
               (\<exists>doc. st' = [] @ [(ascii ''drumkit'', doc)] \<and> dk_price_final doc = 80)"
    by (simp only: o) blast
  from stored_document [OF acc this]
  have "map (\<lambda>(n, d). (n, dk_price_final d))
          (snd (create_drumkit sample_env [] payload_fixed_and_percent)) = [(ascii ''drumkit'', 80)]"
    by auto
  with h o acc pr h' pr' show ?thesis by blast
qed

text \<open>
  C4. For a non-free submission (a request body, so within its field constraints)
  without a fixed offer, the final price is
  \<open>price_original * (1 - offer_percent / 100)\<close>, computed in floats as the source
  computes it and clamped at 0, when a percent offer is present, and the original price
  when there is no offer at all.
\<close>

theorem percent_offer_or_no_offer_price:
  assumes "\<not> is_free payload" and "offer_fixed payload = None" and "DrumkitCreate_valid payload"
  shows "(\<forall>k. offer_percent payload = Some k \<longrightarrow>
            pricing payload
              = Inr (max (float_mul (price_original payload) (float_sub 1 (int_truediv k 100))) 0,
                     None, Some k)
            \<and> (\<forall>i st'. create_drumkit e st payload = (Inr i, st') \<longrightarrow>
                  (\<exists>doc. st' = st @ [(ascii ''drumkit'', doc)]
                         \<and> dk_price_final doc
                             = max (float_mul (price_original payload)
                                      (float_sub 1 (int_truediv k 100))) 0)))
         \<and> (offer_percent payload = None \<longrightarrow>
              pricing payload = Inr (price_original payload, None, None)
              \<and> (\<forall>i st'. create_drumkit e st payload = (Inr i, st') \<longrightarrow>
                    (\<exists>doc. st' = st @ [(ascii ''drumkit'', doc)]
                           \<and> dk_price_final doc = price_original payload)))"
proof -
  have stored: "\<exists>doc. st' = st @ [(ascii ''drumkit'', doc)] \<and> dk_price_final doc = v"
    if "pricing payload = Inr (v, x, y)" and "create_drumkit e st payload = (Inr i, st')"
    for v x y i st'
    using create_drumkit_Inr_cases [OF that(2)] that(1) by (auto simp: drumkit_doc_def)
  have percent: "pricing payload
                   = Inr (max (float_mul (price_original payload)
                                 (float_sub 1 (int_truediv k 100))) 0, None, Some k)"
    if "offer_percent payload = Some k" for k
  proof -
    have "k \<le> 90"
      using assms(3) that by (simp add: DrumkitCreate_valid_def opt_all_def)
    then show ?thesis
      using assms(1,2) that by (simp add: pricing_def opt_ex_def discounted_price_def)
  qed
  have none: "pricing payload = Inr (price_original payload, None, None)"
    if "offer_percent payload = None"
  proof -
    have "0 \<le> price_original payload"
      using assms(3) by (simp add: DrumkitCreate_valid_def)
    then show ?thesis
      using assms(1,2) that by (simp add: pricing_def opt_ex_def discounted_price_def max_def)
  qed
  from stored percent none show ?thesis by blast
qed

text \<open>
  Price 50 with a percent offer of 50: the final price is 25. Price 1 with a percent
  offer of 90: the final price is the float below one tenth,
  \<open>900719925474099 / 2 ^ 53\<close>, printed as \<open>0.09999999999999998\<close>. Price 100 without an
  offer: the final price is 100.
\<close>

theorem percent_offer_or_no_offer_price_witness:
  "\<not> is_free payload_percent \<and> offer_fixed payload_percent = None
   \<and> DrumkitCreate_valid payload_percent \<and> offer_percent payload_percent = Some 50
   \<and> pricing payload_percent = Inr (25, None, Some 50)
   \<and> fst (create_drumkit sample_env [] payload_percent) = Inr (ascii ''drumkit'')
   \<and> map (\<lambda>(n, d). (n, dk_price_final d)) (snd (create_drumkit sample_env [] payload_percent))
       = [(ascii ''drumkit'', 25)]
   \<and> \<not> is_free payload_one_percent_90 \<and> offer_fixed payload_one_percent_90 = None
   \<and> DrumkitCreate_valid payload_one_percent_90 \<and> offer_percent payload_one_percent_90 = Some 90
   \<and> pricing payload_one_percent_90
       = Inr (900719925474099 / 9007199254740992, None, Some 90)
   \<and> \<not> is_free sample_payload \<and> offer_fixed sample_payload = None
   \<and> DrumkitCreate_valid sample_payload \<and> offer_percent sample_payload = None
   \<and> pricing sample_payload = Inr (100, None, None)
   \<and> fst (create_drumkit sample_env [] sample_payload) = Inr (ascii ''drumkit'')
   \<and> map (\<lambda>(n, d). (n, dk_price_final d)) (snd (create_drumkit sample_env [] sample_payload))
       = [(ascii ''drumkit'', 100)]"
proof -
  have h: "\<not> is_free payload_percent" "offer_fixed payload_percent = None"
      "DrumkitCreate_valid payload_percent"
    and o: "offer_percent payload_percent = Some 50"
    and v: "max (float_mul (price_original payload_percent) (float_sub 1 (int_truediv 50 100))) 0 = 25"
    and acc: "fst (create_drumkit sample_env [] payload_percent) = Inr (ascii ''drumkit'')"
    by code_simp+
  have h'': "\<not> is_free payload_one_percent_90" "offer_fixed payload_one_percent_90 = None"
      "DrumkitCreate_valid payload_one_percent_90"
    and o'': "offer_percent payload_one_percent_90 = Some 90"
    and v'': "max (float_mul (price_original payload_one_percent_90)
                     (float_sub 1 (int_truediv 90 100))) 0
               = 900719925474099 / 9007199254740992"
    by code_simp+
  have h': "\<not> is_free sample_payload" "offer_fixed sample_payload = None"
      "DrumkitCreate_valid sample_payload"
    and o': "offer_percent sample_payload = None" "price_original sample_payload = 100"
    and acc': "fst (create_drumkit sample_env [] sample_payload) = Inr (ascii ''drumkit'')"
    by code_simp+
  note inst = percent_offer_or_no_offer_price [OF h, where e = sample_env and st = "[]"]
  note inst'' = percent_offer_or_no_offer_price [OF h'', where e = sample_env and st = "[]"]
  note inst' = percent_offer_or_no_offer_price [OF h', where e = sample_env and st = "[]"]
  from inst o have "pricing payload_percent
      = Inr (max (float_mul (price_original payload_percent) (float_sub 1 (int_truediv 50 100))) 0,
             None, Some 50)"
    by blast
  then have pr: "pricing payload_percent = Inr (25, None, Some 50)"
    by (simp only: v)
  from inst'' o'' have "pricing payload_one_percent_90
      = Inr (max (float_mul (price_original payload_one_percent_90)
                    (float_sub 1 (int_truediv 90 100))) 0, None, Some 90)"
    by blast
  then have pr'': "pricing payload_one_percent_90
                     = Inr (900719925474099 / 9007199254740992, None, Some 90)"
    by (simp only: v'')
  from inst' o' have pr': "pricing sample_payload = Inr (100, None, None)"
    by simp
  from inst o have "\<forall>i st'. create_drumkit sample_env [] payload_percent = (Inr i, st') \<longrightarrow>
               (\<exists>doc. st' = [] @ [(ascii ''drumkit'', doc)]
                  \<and> dk_price_final doc
                      = max (float_mul (price_original payload_percent)
                               (float_sub 1 (int_truediv 50 100))) 0)"
    by blast
  then have "\<forall>i st'. create_drumkit sample_env [] payload_percent = (Inr i, st') \<longrightarrow>
               (\<exists>doc. st' = [] @ [(ascii ''drumkit'', doc)] \<and> dk_price_final doc = 25)"
    by (simp only: v)
  from stored_document [OF acc this]
  have st: "map (\<lambda>(n, d). (n, dk_price_final d))
          (snd (create_drumkit sample_env [] payload_percent)) = [(ascii ''drumkit'', 25)]"
    by auto
  from inst' o' have "\<forall>i st'. create_drumkit sample_env [] sample_payload = (Inr i, st') \<longrightarrow>
               (\<exists>doc. st' = [] @ [(ascii ''drumkit'', doc)] \<and> dk_price_final doc = 100)"
    by simp
  from stored_document [OF acc' this]
  have st': "map (\<lambda>(n, d). (n, dk_price_final d))
          (snd (create_drumkit sample_env [] sample_payload)) = [(ascii ''drumkit'', 100)]"
    by auto
  from h o acc pr st h'' o'' pr'' h' o' acc' pr' st' show ?thesis by blast
qed

text \<open>
  C6, as the claim states it, fails: a non-free submission whose fixed offer (150) is
  at least the original price (100) and which has four tags is rejected with
  \<open>InvalidTags\<close>, not with \<open>OfferExceedsPrice\<close>.
\<close>

theorem offer_exceeds_price_counterexample:
  "\<not> is_free payload_tags_and_offer_wrong
   \<and> offer_fixed payload_tags_and_offer_wrong = Some 150
   \<and> 150 \<ge> price_original payload_tags_and_offer_wrong
   \<and> create_drumkit sample_env [] payload_tags_and_offer_wrong = (Inl InvalidTags, [])"
  by code_simp

text \<open>
  C6, amended. For a non-free submission that passes the tag check (at most 3 tags, each
  of at most 15 characters), with a fixed offer that is at least the original price, the
  operation rejects with \<open>OfferExceedsPrice\<close> and stores nothing.
\<close>

theorem offer_exceeds_price_after_tag_check:
  assumes "length (tags payload) \<le> 3" and "\<forall>t \<in> set (tags payload). length t \<le> 15"
    and "\<not> is_free payload" and "offer_fixed payload = Some f" and "f \<ge> price_original payload"
  shows "create_drumkit e st payload = (Inl OfferExceedsPrice, st)"
proof -
  have "check_tags payload = Inr ()"
    using assms(1,2) by (simp add: check_tags_Inr)
  moreover have "pricing payload = Inl OfferExceedsPrice"
    using assms(3-5) by (simp add: pricing_def opt_ex_def)
  ultimately show ?thesis by (rule create_drumkit_pricing_error)
qed

text \<open>
  Price 100 with a fixed offer of 150 and one tag.
\<close>

theorem offer_exceeds_price_after_tag_check_witness:
  "length (tags payload_offer_wrong) \<le> 3
   \<and> list_all (\<lambda>t. length t \<le> 15) (tags payload_offer_wrong)
   \<and> \<not> is_free payload_offer_wrong
   \<and> offer_fixed payload_offer_wrong = Some 150
   \<and> 150 \<ge> price_original payload_offer_wrong
   \<and> create_drumkit sample_env [] payload_offer_wrong = (Inl OfferExceedsPrice, [])"
proof -
  have h: "length (tags payload_offer_wrong) \<le> 3"
      "\<forall>t \<in> set (tags payload_offer_wrong). length t \<le> 15"
      "\<not> is_free payload_offer_wrong"
      "offer_fixed payload_offer_wrong = Some 150"
      "150 \<ge> price_original payload_offer_wrong"
    by code_simp+
  from h offer_exceeds_price_after_tag_check [OF h, of sample_env "[]"]
  show ?thesis by (simp add: list_all_iff)
qed

text \<open>
  C9. Where the percent offer, when present, lies between 0 and 90, the pricing step
  never yields \<open>OfferPercentTooHigh\<close> and the operation never ends in it. The check is
  present all the same, with the bound 90: a non-free submission that passes the tag
  check and the fixed offer check with a percent offer above 90 is rejected with
  \<open>OfferPercentTooHigh\<close>.
\<close>

theorem offer_percent_too_high_unreachable:
  "(opt_all (\<lambda>k. 0 \<le> k \<and> k \<le> 90) (offer_percent payload) \<longrightarrow>
      pricing payload \<noteq> Inl OfferPercentTooHigh
      \<and> fst (create_drumkit e st payload) \<noteq> Inl OfferPercentTooHigh)
   \<and> (length (tags payload) \<le> 3 \<and> (\<forall>t \<in> set (tags payload). length t \<le> 15)
       \<and> \<not> is_free payload \<and> opt_all (\<lambda>f. f < price_original payload) (offer_fixed payload)
       \<and> opt_ex (\<lambda>k. k > 90) (offer_percent payload) \<longrightarrow>
      create_drumkit e st payload = (Inl OfferPercentTooHigh, st))"
proof (intro conjI impI)
  assume bound: "opt_all (\<lambda>k. 0 \<le> k \<and> k \<le> 90) (offer_percent payload)"
  then have "\<not> opt_ex (\<lambda>k. k > 90) (offer_percent payload)"
    by (auto simp: opt_all_def opt_ex_def split: option.splits)
  then show pr: "pricing payload \<noteq> Inl OfferPercentTooHigh"
    by (simp add: pricing_def)
  show "fst (create_drumkit e st payload) \<noteq> Inl OfferPercentTooHigh"
    using create_drumkit_offer_error [of e st payload OfferPercentTooHigh] pr by auto
next
  assume h: "length (tags payload) \<le> 3 \<and> (\<forall>t \<in> set (tags payload). length t \<le> 15)
       \<and> \<not> is_free payload \<and> opt_all (\<lambda>f. f < price_original payload) (offer_fixed payload)
       \<and> opt_ex (\<lambda>k. k > 90) (offer_percent payload)"
  then have "check_tags payload = Inr ()"
    by (simp add: check_tags_Inr)
  moreover have "\<not> opt_ex (\<lambda>f. f \<ge> price_original payload) (offer_fixed payload)"
    using h by (auto simp: opt_all_def opt_ex_def split: option.splits)
  then have "pricing payload = Inl OfferPercentTooHigh"
    using h by (simp add: pricing_def)
  ultimately show "create_drumkit e st payload = (Inl OfferPercentTooHigh, st)"
    by (rule create_drumkit_pricing_error)
qed

text \<open>
  A percent offer of 90 is not rejected; a percent offer of 91, which no request body
  holds, is.
\<close>

theorem offer_percent_too_high_unreachable_witness:
  "opt_all (\<lambda>k. 0 \<le> k \<and> k \<le> 90) (offer_percent payload_percent_90)
   \<and> offer_percent payload_percent_90 = Some 90
   \<and> pricing payload_percent_90 \<noteq> Inl OfferPercentTooHigh
   \<and> fst (create_drumkit sample_env [] payload_percent_90) \<noteq> Inl OfferPercentTooHigh
   \<and> length (tags payload_percent_91) \<le> 3
   \<and> list_all (\<lambda>t. length t \<le> 15) (tags payload_percent_91)
   \<and> \<not> is_free payload_percent_91
   \<and> opt_all (\<lambda>f. f < price_original payload_percent_91) (offer_fixed payload_percent_91)
   \<and> opt_ex (\<lambda>k. k > 90) (offer_percent payload_percent_91)
   \<and> offer_percent payload_percent_91 = Some 91
   \<and> create_drumkit sample_env [] payload_percent_91 = (Inl OfferPercentTooHigh, [])"
proof -
  have h: "opt_all (\<lambda>k. 0 \<le> k \<and> k \<le> 90) (offer_percent payload_percent_90)"
    and o: "offer_percent payload_percent_90 = Some 90"
    and h': "length (tags payload_percent_91) \<le> 3"
      "\<forall>t \<in> set (tags payload_percent_91). length t \<le> 15"
      "\<not> is_free payload_percent_91"
      "opt_all (\<lambda>f. f < price_original payload_percent_91) (offer_fixed payload_percent_91)"
      "opt_ex (\<lambda>k. k > 90) (offer_percent payload_percent_91)"
    and o': "offer_percent payload_percent_91 = Some 91"
    by code_simp+
  from offer_percent_too_high_unreachable [of payload_percent_90 sample_env "[]"] h
  have low: "pricing payload_percent_90 \<noteq> Inl OfferPercentTooHigh"
    "fst (create_drumkit sample_env [] payload_percent_90) \<noteq> Inl OfferPercentTooHigh"
    by blast+
  from offer_percent_too_high_unreachable [of payload_percent_91 sample_env "[]"] h'
  have high: "create_drumkit sample_env [] payload_percent_91 = (Inl OfferPercentTooHigh, [])"
    by blast
  from h o low h' o' high show ?thesis by (simp add: list_all_iff)
qed

text \<open>
  C10. For a non-free submission that passes validation (the original price at least 1,
  a fixed offer, if any, below the original price, a percent offer, if any, at most 90;
  the float fields being finite floats), the price before the clamp, computed in floats,
  is greater than 0, so that the clamp \<open>max (final_price, 0)\<close> leaves it unchanged, and it
  is the final price of the pricing step. For a fixed offer this rests on the difference of
  two different floats never rounding to 0, for a percent offer on the relative error of
  each rounding being at most \<open>2 ^ -53\<close>.
\<close>

theorem validated_price_positive_clamp_idle:
  assumes "\<not> is_free payload" and "1 \<le> price_original payload"
    and "opt_all (\<lambda>f. f < price_original payload) (offer_fixed payload)"
    and "opt_all (\<lambda>k. k \<le> 90) (offer_percent payload)"
    and "float_fields payload"
  shows "0 < discounted_price payload
         \<and> max (discounted_price payload) 0 = discounted_price payload
         \<and> pricing payload
             = Inr (discounted_price payload, offer_fixed payload, offer_percent payload)"
proof -
  have pos: "0 < discounted_price payload"
  proof (cases "offer_fixed payload")
    case (Some f)
    with assms(3,5) have "is_double (price_original payload)" "is_double f"
      "f < price_original payload"
      by (simp_all add: float_fields_def opt_all_def)
    then have "0 < float_sub (price_original payload) f"
      by (rule float_sub_pos)
    with Some show ?thesis
      by (simp add: discounted_price_def)
  next
    case None
    show ?thesis
    proof (cases "offer_percent payload")
      case None
      with \<open>offer_fixed payload = None\<close> assms(2) show ?thesis
        by (simp add: discounted_price_def)
    next
      case (Some k)
      then have "k \<le> 90"
        using assms(4) by (simp add: opt_all_def)
      then have "0 < float_mul (price_original payload) (float_sub 1 (int_truediv k 100))"
        using assms(2) by (rule percent_price_pos)
      with Some \<open>offer_fixed payload = None\<close> show ?thesis
        by (simp add: discounted_price_def)
    qed
  qed
  have "\<not> opt_ex (\<lambda>f. f \<ge> price_original payload) (offer_fixed payload)"
    using assms(3) by (auto simp: opt_all_def opt_ex_def split: option.splits)
  moreover have "\<not> opt_ex (\<lambda>k. k > 90) (offer_percent payload)"
    using assms(4) by (auto simp: opt_all_def opt_ex_def split: option.splits)
  ultimately have "pricing payload
      = Inr (max (discounted_price payload) 0, offer_fixed payload, offer_percent payload)"
    using assms(1) by (simp add: pricing_def)
  with pos show ?thesis by (simp add: max_def)
qed

text \<open>
  Price 100 with a percent offer of 90: the price before and after the clamp is the float
  \<open>5629499534213119 / 2 ^ 49\<close>, printed as \<open>9.999999999999998\<close>. Price 1000 with a fixed
  offer of \<open>1e-20\<close>: it is 1000.
\<close>

theorem validated_price_positive_clamp_idle_witness:
  "\<not> is_free payload_percent_90 \<and> 1 \<le> price_original payload_percent_90
   \<and> opt_all (\<lambda>f. f < price_original payload_percent_90) (offer_fixed payload_percent_90)
   \<and> opt_all (\<lambda>k. k \<le> 90) (offer_percent payload_percent_90)
   \<and> float_fields payload_percent_90
   \<and> discounted_price payload_percent_90 = 5629499534213119 / 562949953421312
   \<and> 0 < discounted_price payload_percent_90
   \<and> max (discounted_price payload_percent_90) 0 = discounted_price payload_percent_90
   \<and> pricing payload_percent_90
       = Inr (discounted_price payload_percent_90, offer_fixed payload_percent_90,
              offer_percent payload_percent_90)
   \<and> \<not> is_free payload_tiny_fixed \<and> 1 \<le> price_original payload_tiny_fixed
   \<and> opt_all (\<lambda>f. f < price_original payload_tiny_fixed) (offer_fixed payload_tiny_fixed)
   \<and> opt_all (\<lambda>k. k \<le> 90) (offer_percent payload_tiny_fixed)
   \<and> float_fields payload_tiny_fixed
   \<and> discounted_price payload_tiny_fixed = 1000
   \<and> 0 < discounted_price payload_tiny_fixed"
proof -
  have h: "\<not> is_free payload_percent_90" "1 \<le> price_original payload_percent_90"
      "opt_all (\<lambda>f. f < price_original payload_percent_90) (offer_fixed payload_percent_90)"
      "opt_all (\<lambda>k. k \<le> 90) (offer_percent payload_percent_90)"
      "float_fields payload_percent_90"
    and v: "discounted_price payload_percent_90 = 5629499534213119 / 562949953421312"
    by code_simp+
  have h': "\<not> is_free payload_tiny_fixed" "1 \<le> price_original payload_tiny_fixed"
      "opt_all (\<lambda>f. f < price_original payload_tiny_fixed) (offer_fixed payload_tiny_fixed)"
      "opt_all (\<lambda>k. k \<le> 90) (offer_percent payload_tiny_fixed)"
      "float_fields payload_tiny_fixed"
    and v': "discounted_price payload_tiny_fixed = 1000"
    by code_simp+
  from h v h' v' validated_price_positive_clamp_idle [OF h]
    validated_price_positive_clamp_idle [OF h']
  show ?thesis by blast
qed

subsection \<open>The release date\<close>

text \<open>
  C1, as the claim states it, fails: a submission whose \<open>release_at\<close> does not parse
  and which has four tags is rejected with \<open>InvalidTags\<close>, not with
  \<open>InvalidReleaseDate\<close>.
\<close>

theorem invalid_release_date_counterexample:
  "fromisoformat sample_env
     (str_replace (release_at payload_tags_and_date_wrong) (of_char CHR ''Z'') (ascii ''+00:00''))
     = None
   \<and> create_drumkit sample_env [] payload_tags_and_date_wrong = (Inl InvalidTags, [])"
  by code_simp

text \<open>
  C1, amended. For a submission that passes the tag check and the pricing step:
  if the parser rejects \<open>release_at\<close> (with every \<open>Z\<close> replaced by \<open>+00:00\<close>), the
  operation rejects with \<open>InvalidReleaseDate\<close> and stores nothing. A \<open>release_at\<close> that
  ends in \<open>Z\<close> reaches the parser with \<open>+00:00\<close> in its place (\<open>str_replace s\<close> is \<open>s\<close>
  where \<open>s\<close> holds no other \<open>Z\<close>, by \<open>str_replace_absent\<close>): where the parser reads
  that as a timestamp in UTC, the body (within its field constraints) is either rejected
  with \<open>ReleaseDateInPast\<close> or stored with that timestamp as its release date.
\<close>

theorem invalid_release_date_after_earlier_checks:
  assumes "check_tags payload = Inr ()" and "pricing payload = Inr x"
  shows "(fromisoformat e (str_replace (release_at payload) (of_char CHR ''Z'') (ascii ''+00:00''))
            = None \<longrightarrow>
          create_drumkit e st payload = (Inl InvalidReleaseDate, st))
         \<and> (release_at payload = s @ ascii ''Z''
            \<and> fromisoformat e (str_replace s (of_char CHR ''Z'') (ascii ''+00:00'') @ ascii ''+00:00'')
                = Some dt
            \<and> tzinfo dt = Some 0 \<and> DrumkitCreate_valid payload \<longrightarrow>
              create_drumkit e st payload = (Inl ReleaseDateInPast, st)
              \<or> (\<exists>doc. create_drumkit e st payload
                          = (Inr (new_id e st (ascii ''drumkit'') doc),
                             st @ [(ascii ''drumkit'', doc)])
                        \<and> dk_release_at doc = dt))"
proof (intro conjI impI)
  assume "fromisoformat e (str_replace (release_at payload) (of_char CHR ''Z'') (ascii ''+00:00''))
            = None"
  then have "check_release e payload = Inl InvalidReleaseDate"
    by (simp add: check_release_parse_failure)
  with assms show "create_drumkit e st payload = (Inl InvalidReleaseDate, st)"
    by (rule create_drumkit_release_error)
next
  assume h: "release_at payload = s @ ascii ''Z''
            \<and> fromisoformat e (str_replace s (of_char CHR ''Z'') (ascii ''+00:00'') @ ascii ''+00:00'')
                = Some dt
            \<and> tzinfo dt = Some 0 \<and> DrumkitCreate_valid payload"
  then have "str_replace (release_at payload) (of_char CHR ''Z'') (ascii ''+00:00'')
               = str_replace s (of_char CHR ''Z'') (ascii ''+00:00'') @ ascii ''+00:00''"
    by (simp add: ascii_Z str_replace_append str_replace_single)
  with h have parsed:
    "fromisoformat e (str_replace (release_at payload) (of_char CHR ''Z'') (ascii ''+00:00''))
       = Some dt"
    by simp
  obtain r where r: "datetime_lt (replace_second_microsecond dt)
                       (replace_second_microsecond (datetime_now_utc e)) = Inr r"
    using datetime_lt_aware [of "replace_second_microsecond dt" 0
                                "replace_second_microsecond (datetime_now_utc e)" 0] h
    by auto
  show "create_drumkit e st payload = (Inl ReleaseDateInPast, st)
        \<or> (\<exists>doc. create_drumkit e st payload
                    = (Inr (new_id e st (ascii ''drumkit'') doc), st @ [(ascii ''drumkit'', doc)])
                  \<and> dk_release_at doc = dt)"
  proof (cases r)
    case True
    then have "check_release e payload = Inl ReleaseDateInPast"
      using r by (simp add: check_release_parsed [OF parsed])
    with assms have "create_drumkit e st payload = (Inl ReleaseDateInPast, st)"
      by (rule create_drumkit_release_error)
    then show ?thesis ..
  next
    case False
    then have "check_release e payload = Inr dt"
      using r by (simp add: check_release_parsed [OF parsed])
    from create_drumkit_accepts [OF assms this] h show ?thesis by blast
  qed
qed

text \<open>
  The release date \<open>soon\<close> is rejected with \<open>InvalidReleaseDate\<close>; the release date
  \<open>2030-01-01T00:00:00Z\<close> is stored as midnight of that day in UTC.
\<close>

theorem invalid_release_date_after_earlier_checks_witness:
  "check_tags payload_date_wrong = Inr ()
   \<and> pricing payload_date_wrong = Inr (100, None, None)
   \<and> fromisoformat sample_env
       (str_replace (release_at payload_date_wrong) (of_char CHR ''Z'') (ascii ''+00:00'')) = None
   \<and> create_drumkit sample_env [] payload_date_wrong = (Inl InvalidReleaseDate, [])
   \<and> release_at sample_payload = ascii ''2030-01-01T00:00:00'' @ ascii ''Z''
   \<and> fromisoformat sample_env
       (str_replace (ascii ''2030-01-01T00:00:00'') (of_char CHR ''Z'') (ascii ''+00:00'')
        @ ascii ''+00:00'') = Some utc_2030
   \<and> tzinfo utc_2030 = Some 0
   \<and> DrumkitCreate_valid sample_payload
   \<and> fst (create_drumkit sample_env [] sample_payload) = Inr (ascii ''drumkit'')
   \<and> map (\<lambda>(n, d). (n, dk_release_at d)) (snd (create_drumkit sample_env [] sample_payload))
       = [(ascii ''drumkit'', utc_2030)]"
proof -
  have t: "check_tags payload_date_wrong = Inr ()"
    and p: "pricing payload_date_wrong = Inr (100, None, None)"
    and f: "fromisoformat sample_env
       (str_replace (release_at payload_date_wrong) (of_char CHR ''Z'') (ascii ''+00:00'')) = None"
    by code_simp+
  have t': "check_tags sample_payload = Inr ()"
    and p': "pricing sample_payload = Inr (100, None, None)"
    and z: "release_at sample_payload = ascii ''2030-01-01T00:00:00'' @ ascii ''Z''"
      "fromisoformat sample_env
         (str_replace (ascii ''2030-01-01T00:00:00'') (of_char CHR ''Z'') (ascii ''+00:00'')
          @ ascii ''+00:00'') = Some utc_2030"
      "tzinfo utc_2030 = Some 0"
      "DrumkitCreate_valid sample_payload"
    and acc: "fst (create_drumkit sample_env [] sample_payload) = Inr (ascii ''drumkit'')"
    by code_simp+
  have rej: "create_drumkit sample_env [] payload_date_wrong = (Inl InvalidReleaseDate, [])"
    using invalid_release_date_after_earlier_checks [OF t p, where e = sample_env and st = "[]"] f
    by blast
  have "create_drumkit sample_env [] sample_payload = (Inl ReleaseDateInPast, [])
        \<or> (\<exists>doc. create_drumkit sample_env [] sample_payload
                    = (Inr (new_id sample_env [] (ascii ''drumkit'') doc),
                       [] @ [(ascii ''drumkit'', doc)])
                  \<and> dk_release_at doc = utc_2030)"
    using invalid_release_date_after_earlier_checks
            [OF t' p', where e = sample_env and st = "[]"
               and s = "ascii ''2030-01-01T00:00:00''" and dt = utc_2030] z
    by blast
  with acc have "map (\<lambda>(n, d). (n, dk_release_at d)) (snd (create_drumkit sample_env [] sample_payload))
       = [(ascii ''drumkit'', utc_2030)]"
    by auto
  with t p f rej z acc show ?thesis by blast
qed

text \<open>
  C7, as the claim states it, fails twice. A submission with a release date in 2020,
  years before the sample clock, and with a fixed offer (150) above the price (100) is
  rejected with \<open>OfferExceedsPrice\<close>, not with \<open>ReleaseDateInPast\<close>. And a release at
  12:30:50 with the offset \<open>+00:00:30\<close>, the instant 12:30:20 UTC, in the minute 12:30
  of the sample clock, is rejected with \<open>ReleaseDateInPast\<close>: its seconds are set to 0 in
  its own offset, which gives 12:29:30 UTC.
\<close>

theorem release_in_past_counterexample:
  "fromisoformat sample_env
     (str_replace (release_at payload_offer_wrong_release_past) (of_char CHR ''Z'') (ascii ''+00:00''))
     = Some utc_2020
   \<and> datetime_lt (replace_second_microsecond utc_2020)
                  (replace_second_microsecond (datetime_now_utc sample_env)) = Inr True
   \<and> create_drumkit sample_env [] payload_offer_wrong_release_past = (Inl OfferExceedsPrice, [])
   \<and> check_tags payload_release_seconds_offset = Inr ()
   \<and> pricing payload_release_seconds_offset = Inr (100, None, None)
   \<and> fromisoformat sample_env
       (str_replace (release_at payload_release_seconds_offset) (of_char CHR ''Z'') (ascii ''+00:00''))
       = Some plus_thirty_seconds_this_minute
   \<and> utc_minute plus_thirty_seconds_this_minute 30000000
       = utc_minute (datetime_now_utc sample_env) 0
   \<and> create_drumkit sample_env [] payload_release_seconds_offset = (Inl ReleaseDateInPast, [])"
  by code_simp

text \<open>
  C7, amended. For a submission that passes the tag check and the pricing step and
  whose \<open>release_at\<close> the parser reads as an aware timestamp: if that timestamp with
  seconds and microseconds set to 0 is an earlier instant than the current UTC time with
  seconds and microseconds set to 0, the operation rejects with \<open>ReleaseDateInPast\<close> and
  stores nothing; if it is not, the body (within its field constraints) is stored with
  the timestamp. Where the offset of the timestamp is a whole number of minutes, the
  first is the case exactly when the minute of UTC of the release is before the minute of
  UTC of the current time: a release in the current minute, or a later one, is accepted.
\<close>

theorem release_in_past_after_earlier_checks:
  assumes "check_tags payload = Inr ()" and "pricing payload = Inr x"
    and "fromisoformat e (str_replace (release_at payload) (of_char CHR ''Z'') (ascii ''+00:00''))
           = Some client_dt"
    and "tzinfo client_dt = Some off"
    and "datetime_valid client_dt" and "datetime_valid (wall_clock e)"
  shows "(utc_microseconds (replace_second_microsecond client_dt) off
            < utc_microseconds (replace_second_microsecond (datetime_now_utc e)) 0 \<longrightarrow>
            create_drumkit e st payload = (Inl ReleaseDateInPast, st))
         \<and> (utc_microseconds (replace_second_microsecond (datetime_now_utc e)) 0
              \<le> utc_microseconds (replace_second_microsecond client_dt) off
            \<and> DrumkitCreate_valid payload \<longrightarrow>
              (\<exists>doc. create_drumkit e st payload
                        = (Inr (new_id e st (ascii ''drumkit'') doc),
                           st @ [(ascii ''drumkit'', doc)])
                      \<and> dk_release_at doc = client_dt))
         \<and> (off mod 60000000 = 0
            \<and> utc_minute client_dt off < utc_minute (datetime_now_utc e) 0 \<longrightarrow>
              create_drumkit e st payload = (Inl ReleaseDateInPast, st))
         \<and> (off mod 60000000 = 0
            \<and> utc_minute (datetime_now_utc e) 0 \<le> utc_minute client_dt off
            \<and> DrumkitCreate_valid payload \<longrightarrow>
              (\<exists>doc. create_drumkit e st payload
                        = (Inr (new_id e st (ascii ''drumkit'') doc),
                           st @ [(ascii ''drumkit'', doc)])
                      \<and> dk_release_at doc = client_dt))"
proof -
  let ?c = "replace_second_microsecond client_dt"
  let ?n = "replace_second_microsecond (datetime_now_utc e)"
  have lt: "datetime_lt ?c ?n = Inr (utc_microseconds ?c off < utc_microseconds ?n 0)"
    using assms(4-6)
    by (intro datetime_lt_instants datetime_valid_replace) (simp_all add: datetime_valid_now)
  have past: "create_drumkit e st payload = (Inl ReleaseDateInPast, st)"
    if "utc_microseconds ?c off < utc_microseconds ?n 0"
  proof -
    from that have "check_release e payload = Inl ReleaseDateInPast"
      by (simp add: check_release_parsed [OF assms(3)] lt)
    with assms(1,2) show ?thesis
      by (rule create_drumkit_release_error)
  qed
  have stored: "\<exists>doc. create_drumkit e st payload
                   = (Inr (new_id e st (ascii ''drumkit'') doc), st @ [(ascii ''drumkit'', doc)])
                 \<and> dk_release_at doc = client_dt"
    if "utc_microseconds ?n 0 \<le> utc_microseconds ?c off" and "DrumkitCreate_valid payload"
  proof -
    from that(1) have "check_release e payload = Inr client_dt"
      by (simp add: check_release_parsed [OF assms(3)] lt)
    from create_drumkit_accepts [OF assms(1,2) this that(2)] show ?thesis .
  qed
  have minutes: "utc_microseconds ?c off = utc_minute client_dt off * 60000000"
      "utc_microseconds ?n 0 = utc_minute (datetime_now_utc e) 0 * 60000000"
    if "off mod 60000000 = 0"
    using that assms(5,6)
    by (simp_all add: utc_microseconds_replace datetime_valid_now)
  show ?thesis
  proof (intro conjI impI)
    assume "utc_microseconds ?c off < utc_microseconds ?n 0"
    then show "create_drumkit e st payload = (Inl ReleaseDateInPast, st)"
      by (rule past)
  next
    assume "utc_microseconds ?n 0 \<le> utc_microseconds ?c off \<and> DrumkitCreate_valid payload"
    then show "\<exists>doc. create_drumkit e st payload
                   = (Inr (new_id e st (ascii ''drumkit'') doc), st @ [(ascii ''drumkit'', doc)])
                 \<and> dk_release_at doc = client_dt"
      using stored by blast
  next
    assume h: "off mod 60000000 = 0
               \<and> utc_minute client_dt off < utc_minute (datetime_now_utc e) 0"
    then have "utc_microseconds ?c off < utc_microseconds ?n 0"
      using minutes by simp
    then show "create_drumkit e st payload = (Inl ReleaseDateInPast, st)"
      by (rule past)
  next
    assume h: "off mod 60000000 = 0
               \<and> utc_minute (datetime_now_utc e) 0 \<le> utc_minute client_dt off
               \<and> DrumkitCreate_valid payload"
    then have "utc_microseconds ?n 0 \<le> utc_microseconds ?c off"
      using minutes by simp
    with h show "\<exists>doc. create_drumkit e st payload
                   = (Inr (new_id e st (ascii ''drumkit'') doc), st @ [(ascii ''drumkit'', doc)])
                 \<and> dk_release_at doc = client_dt"
      using stored by blast
  qed
qed

text \<open>
  The clock reads 12:30:45 UTC. A release at 12:29:59 UTC is rejected. A release at
  13:30:59 with the offset \<open>+01:00\<close>, in the minute of the clock, is stored. A release at
  12:30:50 with the offset \<open>+00:00:30\<close> is rejected, as its timestamp with seconds set
  to 0 is the instant 12:29:30 UTC.
\<close>

theorem release_in_past_after_earlier_checks_witness:
  "check_tags payload_release_last_minute = Inr ()
   \<and> pricing payload_release_last_minute = Inr (100, None, None)
   \<and> fromisoformat sample_env
       (str_replace (release_at payload_release_last_minute) (of_char CHR ''Z'') (ascii ''+00:00''))
       = Some utc_last_minute
   \<and> tzinfo utc_last_minute = Some 0 \<and> (0::int) mod 60000000 = 0
   \<and> datetime_valid utc_last_minute \<and> datetime_valid (wall_clock sample_env)
   \<and> utc_minute utc_last_minute 0 < utc_minute (datetime_now_utc sample_env) 0
   \<and> create_drumkit sample_env [] payload_release_last_minute = (Inl ReleaseDateInPast, [])
   \<and> check_tags payload_release_offset_this_minute = Inr ()
   \<and> pricing payload_release_offset_this_minute = Inr (100, None, None)
   \<and> fromisoformat sample_env
       (str_replace (release_at payload_release_offset_this_minute) (of_char CHR ''Z'')
          (ascii ''+00:00''))
       = Some plus_one_hour_this_minute
   \<and> tzinfo plus_one_hour_this_minute = Some 3600000000 \<and> (3600000000::int) mod 60000000 = 0
   \<and> datetime_valid plus_one_hour_this_minute
   \<and> utc_minute (datetime_now_utc sample_env) 0 = utc_minute plus_one_hour_this_minute 3600000000
   \<and> DrumkitCreate_valid payload_release_offset_this_minute
   \<and> fst (create_drumkit sample_env [] payload_release_offset_this_minute) = Inr (ascii ''drumkit'')
   \<and> map (\<lambda>(n, d). (n, dk_release_at d))
          (snd (create_drumkit sample_env [] payload_release_offset_this_minute))
       = [(ascii ''drumkit'', plus_one_hour_this_minute)]
   \<and> check_tags payload_release_seconds_offset = Inr ()
   \<and> pricing payload_release_seconds_offset = Inr (100, None, None)
   \<and> fromisoformat sample_env
       (str_replace (release_at payload_release_seconds_offset) (of_char CHR ''Z'')
          (ascii ''+00:00''))
       = Some plus_thirty_seconds_this_minute
   \<and> tzinfo plus_thirty_seconds_this_minute = Some 30000000
   \<and> datetime_valid plus_thirty_seconds_this_minute
   \<and> utc_microseconds (replace_second_microsecond plus_thirty_seconds_this_minute) 30000000
       < utc_microseconds (replace_second_microsecond (datetime_now_utc sample_env)) 0
   \<and> create_drumkit sample_env [] payload_release_seconds_offset = (Inl ReleaseDateInPast, [])"
proof -
  have h: "check_tags payload_release_last_minute = Inr ()"
      "pricing payload_release_last_minute = Inr (100, None, None)"
      "fromisoformat sample_env
        (str_replace (release_at payload_release_last_minute) (of_char CHR ''Z'') (ascii ''+00:00''))
        = Some utc_last_minute"
      "tzinfo utc_last_minute = Some 0"
      "datetime_valid utc_last_minute" "datetime_valid (wall_clock sample_env)"
    and m: "(0::int) mod 60000000 = 0"
    and lt: "utc_minute utc_last_minute 0 < utc_minute (datetime_now_utc sample_env) 0"
    by code_simp+
  have h': "check_tags payload_release_offset_this_minute = Inr ()"
      "pricing payload_release_offset_this_minute = Inr (100, None, None)"
      "fromisoformat sample_env
        (str_replace (release_at payload_release_offset_this_minute) (of_char CHR ''Z'')
           (ascii ''+00:00''))
        = Some plus_one_hour_this_minute"
      "tzinfo plus_one_hour_this_minute = Some 3600000000"
      "datetime_valid plus_one_hour_this_minute" "datetime_valid (wall_clock sample_env)"
    and m': "(3600000000::int) mod 60000000 = 0"
    and same: "utc_minute (datetime_now_utc sample_env) 0
                 = utc_minute plus_one_hour_this_minute 3600000000"
    and v: "DrumkitCreate_valid payload_release_offset_this_minute"
    by code_simp+
  have h'': "check_tags payload_release_seconds_offset = Inr ()"
      "pricing payload_release_seconds_offset = Inr (100, None, None)"
      "fromisoformat sample_env
        (str_replace (release_at payload_release_seconds_offset) (of_char CHR ''Z'')
           (ascii ''+00:00''))
        = Some plus_thirty_seconds_this_minute"
      "tzinfo plus_thirty_seconds_this_minute = Some 30000000"
      "datetime_valid plus_thirty_seconds_this_minute" "datetime_valid (wall_clock sample_env)"
    and lt'': "utc_microseconds (replace_second_microsecond plus_thirty_seconds_this_minute) 30000000
                < utc_microseconds (replace_second_microsecond (datetime_now_utc sample_env)) 0"
    by code_simp+
  have first_id: "new_id sample_env [] (ascii ''drumkit'') doc = ascii ''drumkit''" for doc
    by (simp add: sample_env_def)
  note inst = release_in_past_after_earlier_checks [OF h, where st = "[]"]
  note inst' = release_in_past_after_earlier_checks [OF h', where st = "[]"]
  note inst'' = release_in_past_after_earlier_checks [OF h'', where st = "[]"]
  from inst m lt have past:
    "create_drumkit sample_env [] payload_release_last_minute = (Inl ReleaseDateInPast, [])"
    by blast
  from inst'' lt'' have past'':
    "create_drumkit sample_env [] payload_release_seconds_offset = (Inl ReleaseDateInPast, [])"
    by blast
  from same have "utc_minute (datetime_now_utc sample_env) 0
                    \<le> utc_minute plus_one_hour_this_minute 3600000000"
    by (simp only: order_refl)
  with inst' m' v obtain doc where
    "create_drumkit sample_env [] payload_release_offset_this_minute
       = (Inr (new_id sample_env [] (ascii ''drumkit'') doc), [] @ [(ascii ''drumkit'', doc)])"
    "dk_release_at doc = plus_one_hour_this_minute"
    by blast
  then have acc:
    "fst (create_drumkit sample_env [] payload_release_offset_this_minute) = Inr (ascii ''drumkit'')"
    "map (\<lambda>(n, d). (n, dk_release_at d))
          (snd (create_drumkit sample_env [] payload_release_offset_this_minute))
       = [(ascii ''drumkit'', plus_one_hour_this_minute)]"
    by (simp_all add: first_id)
  from h m lt past h' m' same v acc h'' lt'' past'' show ?thesis by blast
qed

subsection \<open>Storage\<close>

text \<open>
  C8. A rejection leaves the storage as it was. A response means exactly one insert,
  into the collection \<open>drumkit\<close>, and the identifier returned is the one the storage
  generated for that insert. And a body (within its field constraints) that passes the
  tag check, the pricing step and the release date validation is stored, as the document
  built from it.
\<close>

theorem storage_called_once_on_success_only:
  "(\<forall>err st'. create_drumkit e st payload = (Inl err, st') \<longrightarrow> st' = st)
   \<and> (\<forall>i st'. create_drumkit e st payload = (Inr i, st') \<longrightarrow>
         (\<exists>doc. i = new_id e st (ascii ''drumkit'') doc \<and> st' = st @ [(ascii ''drumkit'', doc)]))
   \<and> (\<forall>fp of' op' dt.
         check_tags payload = Inr () \<and> pricing payload = Inr (fp, of', op')
         \<and> check_release e payload = Inr dt \<and> DrumkitCreate_valid payload \<longrightarrow>
         create_drumkit e st payload
           = (Inr (new_id e st (ascii ''drumkit'') (drumkit_doc payload dt of' op' fp)),
              st @ [(ascii ''drumkit'', drumkit_doc payload dt of' op' fp)]))"
proof (intro conjI allI impI)
  fix err st'
  assume "create_drumkit e st payload = (Inl err, st')"
  then show "st' = st" by (rule create_drumkit_Inl_storage)
next
  fix i st'
  assume "create_drumkit e st payload = (Inr i, st')"
  from create_drumkit_Inr_cases [OF this]
  show "\<exists>doc. i = new_id e st (ascii ''drumkit'') doc \<and> st' = st @ [(ascii ''drumkit'', doc)]"
    by blast
next
  fix fp of' op' dt
  assume h: "check_tags payload = Inr () \<and> pricing payload = Inr (fp, of', op')
         \<and> check_release e payload = Inr dt \<and> DrumkitCreate_valid payload"
  then have "Drumkit_valid (drumkit_doc payload dt of' op' fp)"
    using check_release_aware [of e payload dt] by (intro Drumkit_valid_doc) simp_all
  with h show "create_drumkit e st payload
           = (Inr (new_id e st (ascii ''drumkit'') (drumkit_doc payload dt of' op' fp)),
              st @ [(ascii ''drumkit'', drumkit_doc payload dt of' op' fp)])"
    by (intro create_drumkit_stored) simp_all
qed

text \<open>
  A rejected submission leaves the empty storage empty; the sample body becomes its one
  document.
\<close>

theorem storage_called_once_on_success_only_witness:
  "fst (create_drumkit sample_env [] payload_offer_wrong) = Inl OfferExceedsPrice
   \<and> snd (create_drumkit sample_env [] payload_offer_wrong) = []
   \<and> check_tags sample_payload = Inr ()
   \<and> pricing sample_payload = Inr (100, None, None)
   \<and> check_release sample_env sample_payload = Inr utc_2030
   \<and> DrumkitCreate_valid sample_payload
   \<and> create_drumkit sample_env [] sample_payload
       = (Inr (ascii ''drumkit''),
          [(ascii ''drumkit'', drumkit_doc sample_payload utc_2030 None None 100)])"
proof -
  have rej: "fst (create_drumkit sample_env [] payload_offer_wrong) = Inl OfferExceedsPrice"
    and h: "check_tags sample_payload = Inr ()"
      "pricing sample_payload = Inr (100, None, None)"
      "check_release sample_env sample_payload = Inr utc_2030"
      "DrumkitCreate_valid sample_payload"
    by code_simp+
  have first_id: "new_id sample_env [] (ascii ''drumkit'') doc = ascii ''drumkit''" for doc
    by (simp add: sample_env_def)
  note rejected = storage_called_once_on_success_only [of sample_env "[]" payload_offer_wrong]
  note accepted = storage_called_once_on_success_only [of sample_env "[]" sample_payload]
  from rej have "create_drumkit sample_env [] payload_offer_wrong
                   = (Inl OfferExceedsPrice, snd (create_drumkit sample_env [] payload_offer_wrong))"
    by (metis prod.collapse)
  with rejected have unchanged: "snd (create_drumkit sample_env [] payload_offer_wrong) = []"
    by blast
  from accepted h have "create_drumkit sample_env [] sample_payload
       = (Inr (new_id sample_env [] (ascii ''drumkit'') (drumkit_doc sample_payload utc_2030 None None 100)),
          [] @ [(ascii ''drumkit'', drumkit_doc sample_payload utc_2030 None None 100)])"
    by blast
  then have "create_drumkit sample_env [] sample_payload
       = (Inr (ascii ''drumkit''),
          [(ascii ''drumkit'', drumkit_doc sample_payload utc_2030 None None 100)])"
    by (simp add: first_id)
  with rej unchanged h show ?thesis by blast
qed

end
